theory Spec2Isabelle
  imports Complex_Main "HOL-Library.Sublist"
begin

section \<open>Blog2Buzz: the extraction, tracking, prompt and conversion pipeline\<close>

text \<open>
  A shallow embedding of the TypeScript sources \<^verbatim>\<open>lib/extract.ts\<close>, \<^verbatim>\<open>lib/utm.ts\<close>,
  \<^verbatim>\<open>lib/prompts.ts\<close>, \<^verbatim>\<open>lib/supabase.ts\<close> and \<^verbatim>\<open>app/api/convert/route.ts\<close>.

  Conventions.
  \<^item> A JavaScript string is a \<open>string\<close>: the list of the bytes of its UTF-8 encoding. The
    code point U+200B is therefore the three bytes E2 80 8B, and the white space that
    \<^verbatim>\<open>trim\<close> and the regular expression class \<^verbatim>\<open>\s\<close> recognise is a list of byte sequences.
  \<^item> \<^verbatim>\<open>undefined\<close> and \<^verbatim>\<open>null\<close> are \<open>None\<close>; a value that may be thrown is the left
    summand of \<open>thrown + 'a\<close>.
  \<^item> Everything the code obtains from a library or from the outside (the WHATWG URL class,
    zod's default messages, \<^verbatim>\<open>fetch\<close>, JSDOM, Readability, the Gemini client, the Supabase
    client, the process environment) is a field of the record \<open>world\<close>: the theorems hold
    for every behaviour of these collaborators, or state what they need of them.
\<close>

subsection \<open>Strings\<close>

text \<open>\<^verbatim>\<open>s.includes(t)\<close>: \<open>t\<close> occurs in \<open>s\<close> as a contiguous substring.\<close>

fun str_includes :: "string \<Rightarrow> string \<Rightarrow> bool" where
  "str_includes [] t = (t = [])"
| "str_includes (c # s) t = (prefix t (c # s) \<or> str_includes s t)"

text \<open>\<^verbatim>\<open>toUpperCase\<close> on ASCII letters; it is also the canonicalisation of the \<^verbatim>\<open>i\<close> flag of a
  regular expression on ASCII patterns (a non-ASCII character never matches an ASCII one).\<close>

definition ascii_upper :: "char \<Rightarrow> char" where
  "ascii_upper c =
     (case map_of (zip ''abcdefghijklmnopqrstuvwxyz'' ''ABCDEFGHIJKLMNOPQRSTUVWXYZ'') c of
        Some u \<Rightarrow> u
      | None \<Rightarrow> c)"

definition toUpperCase :: "string \<Rightarrow> string" where
  "toUpperCase s = map ascii_upper s"

text \<open>Whether the literal pattern \<open>pat\<close> matches at the start of \<open>s\<close>.\<close>

definition matches_at :: "bool \<Rightarrow> string \<Rightarrow> string \<Rightarrow> bool" where
  "matches_at ignoreCase pat s =
     (if ignoreCase
      then length pat \<le> length s \<and> map ascii_upper (take (length pat) s) = map ascii_upper pat
      else prefix pat s)"

text \<open>\<^verbatim>\<open>s.replace(/pat/g, "")\<close> and \<^verbatim>\<open>s.replace(/pat/gi, "")\<close> for a literal pattern: the
  matches are found from left to right and do not overlap.\<close>

fun remove_all :: "bool \<Rightarrow> string \<Rightarrow> string \<Rightarrow> string" where
  "remove_all ignoreCase pat [] = []"
| "remove_all ignoreCase pat (c # s) =
     (if pat \<noteq> [] \<and> matches_at ignoreCase pat (c # s)
      then remove_all ignoreCase pat (drop (length pat - 1) s)
      else c # remove_all ignoreCase pat s)"

text \<open>\<^verbatim>\<open>s.replace(pat, rep)\<close> with a string pattern: only the first occurrence is replaced
  (the replacement strings of the code contain no \<^verbatim>\<open>$\<close> pattern).\<close>

fun replace_first :: "string \<Rightarrow> string \<Rightarrow> string \<Rightarrow> string" where
  "replace_first pat rep [] = (if pat = [] then rep else [])"
| "replace_first pat rep (c # s) =
     (if prefix pat (c # s) then rep @ drop (length pat) (c # s)
      else c # replace_first pat rep s)"

text \<open>The white space of ECMAScript (WhiteSpace and LineTerminator), in UTF-8: TAB, LF, VT,
  FF, CR, SP, U+00A0, U+1680, U+2000 to U+200A, U+2028, U+2029, U+202F, U+205F, U+3000 and
  U+FEFF. U+200B is not white space.\<close>

definition js_whitespace :: "string list" where
  "js_whitespace =
     [[CHR 0x09], [CHR 0x0A], [CHR 0x0B], [CHR 0x0C], [CHR 0x0D], [CHR 0x20],
      [CHR 0xC2, CHR 0xA0],
      [CHR 0xE1, CHR 0x9A, CHR 0x80],
      [CHR 0xE2, CHR 0x80, CHR 0x80], [CHR 0xE2, CHR 0x80, CHR 0x81],
      [CHR 0xE2, CHR 0x80, CHR 0x82], [CHR 0xE2, CHR 0x80, CHR 0x83],
      [CHR 0xE2, CHR 0x80, CHR 0x84], [CHR 0xE2, CHR 0x80, CHR 0x85],
      [CHR 0xE2, CHR 0x80, CHR 0x86], [CHR 0xE2, CHR 0x80, CHR 0x87],
      [CHR 0xE2, CHR 0x80, CHR 0x88], [CHR 0xE2, CHR 0x80, CHR 0x89],
      [CHR 0xE2, CHR 0x80, CHR 0x8A],
      [CHR 0xE2, CHR 0x80, CHR 0xA8], [CHR 0xE2, CHR 0x80, CHR 0xA9],
      [CHR 0xE2, CHR 0x80, CHR 0xAF],
      [CHR 0xE2, CHR 0x81, CHR 0x9F],
      [CHR 0xE3, CHR 0x80, CHR 0x80],
      [CHR 0xEF, CHR 0xBB, CHR 0xBF]]"

text \<open>Drops, repeatedly, a leading member of \<open>ws\<close>.\<close>

fun strip_leading :: "string list \<Rightarrow> string \<Rightarrow> string" where
  "strip_leading ws [] = []"
| "strip_leading ws (c # s) =
     (case List.find (\<lambda>w. w \<noteq> [] \<and> prefix w (c # s)) ws of
        None \<Rightarrow> c # s
      | Some w \<Rightarrow> strip_leading ws (drop (length w - 1) s))"

definition trim :: "string \<Rightarrow> string" where
  "trim s = rev (strip_leading (map rev js_whitespace) (rev (strip_leading js_whitespace s)))"

text \<open>\<^verbatim>\<open>xs.join(sep)\<close>.\<close>

fun join :: "string \<Rightarrow> string list \<Rightarrow> string" where
  "join sep [] = []"
| "join sep [x] = x"
| "join sep (x # y # ys) = x @ sep @ join sep (y # ys)"

text \<open>The decimal numeral of a natural number, as a template literal prints it.\<close>

fun string_of_nat :: "nat \<Rightarrow> string" where
  "string_of_nat n =
     (if n < 10 then [''0123456789'' ! n]
      else string_of_nat (n div 10) @ [''0123456789'' ! (n mod 10)])"

subsection \<open>The types of \<^verbatim>\<open>types/conversion.ts\<close>\<close>

datatype OutputType = Newsletter | Social | Email

datatype SourceType = SourceUrl | SourceText

datatype SocialPlatform = Twitter | Linkedin | Instagram

datatype Tone = Conversational | Professional | Playful

fun OutputType_str :: "OutputType \<Rightarrow> string" where
  "OutputType_str Newsletter = ''newsletter''"
| "OutputType_str Social = ''social''"
| "OutputType_str Email = ''email''"

fun SocialPlatform_str :: "SocialPlatform \<Rightarrow> string" where
  "SocialPlatform_str Twitter = ''twitter''"
| "SocialPlatform_str Linkedin = ''linkedin''"
| "SocialPlatform_str Instagram = ''instagram''"

fun Tone_str :: "Tone \<Rightarrow> string" where
  "Tone_str Conversational = ''conversational''"
| "Tone_str Professional = ''professional''"
| "Tone_str Playful = ''playful''"

record BlogMetadata =
  title :: "string option"
  author :: "string option"
  canonicalUrl :: string
  wordCount :: "nat option"
  excerpt :: "string option"

record ConvertRequestPayload =
  sourceType :: SourceType
  source :: string
  outputTypes :: "OutputType list"
  socialPlatforms :: "SocialPlatform list option"
  tone :: "Tone option"
  reqCanonicalUrl :: "string option"
  articleTitle :: "string option"
  articleAuthor :: "string option"

record ConvertResponsePayload =
  outputs :: "OutputType \<rightharpoonup> string"
  metadata :: BlogMetadata
  rawContent :: string

text \<open>What a \<^verbatim>\<open>throw\<close> carries: an instance of \<^verbatim>\<open>Error\<close> with its message, or any other
  value.\<close>

datatype thrown = Error string | NonError

text \<open>JavaScript truthiness of an optional string.\<close>

fun truthy :: "string option \<Rightarrow> bool" where
  "truthy None = False"
| "truthy (Some s) = (s \<noteq> [])"

subsection \<open>The URL class\<close>

text \<open>
  A URL object, with the components of the URL standard. \<open>query\<close> and \<open>fragment\<close> are
  \<open>None\<close> when the URL has none. The parser (\<^verbatim>\<open>new URL(href)\<close>, \<^verbatim>\<open>new URL(href, base)\<close>, which
  throw a \<^verbatim>\<open>TypeError\<close> on failure), the serialiser (\<^verbatim>\<open>toString\<close>) and the
  \<^verbatim>\<open>application/x-www-form-urlencoded\<close> parser and serialiser belong to the platform: they
  are the fields of \<open>url_api\<close>.
\<close>

record url =
  scheme :: string
  username :: string
  password :: string
  host :: "string option"
  port :: "nat option"
  path :: string
  query :: "string option"
  fragment :: "string option"

record url_api =
  new_URL :: "string \<Rightarrow> string option \<Rightarrow> thrown + url"
  URL_toString :: "url \<Rightarrow> string"
  urlencoded_parse :: "string \<Rightarrow> (string \<times> string) list"
  urlencoded_serialize :: "(string \<times> string) list \<Rightarrow> string"

text \<open>\<^verbatim>\<open>url.searchParams\<close>: the list of name-value pairs of the query.\<close>

definition searchParams :: "url_api \<Rightarrow> url \<Rightarrow> (string \<times> string) list" where
  "searchParams A u = urlencoded_parse A (case query u of None \<Rightarrow> [] | Some q \<Rightarrow> q)"

text \<open>\<^verbatim>\<open>URLSearchParams.set(name, value)\<close> on the list: if a pair of that name exists, the first
  one gets the value and the others are removed; otherwise the pair is appended.\<close>

fun set_first :: "string \<Rightarrow> string \<Rightarrow> (string \<times> string) list \<Rightarrow> (string \<times> string) list" where
  "set_first name v [] = []"
| "set_first name v (p # l) =
     (if fst p = name then (name, v) # filter (\<lambda>q. fst q \<noteq> name) l
      else p # set_first name v l)"

definition searchParams_set ::
    "string \<Rightarrow> string \<Rightarrow> (string \<times> string) list \<Rightarrow> (string \<times> string) list" where
  "searchParams_set name v l =
     (if name \<in> fst ` set l then set_first name v l else l @ [(name, v)])"

text \<open>The update steps of \<^verbatim>\<open>searchParams\<close>: the URL's query becomes the serialised list
  (no query when the serialisation is empty).\<close>

definition update_query :: "url_api \<Rightarrow> (string \<times> string) list \<Rightarrow> url \<Rightarrow> url" where
  "update_query A l u =
     u\<lparr>query := (if urlencoded_serialize A l = [] then None
                  else Some (urlencoded_serialize A l))\<rparr>"

subsection \<open>\<^verbatim>\<open>lib/utm.ts\<close>\<close>

definition UTM_SOURCE :: string where
  "UTM_SOURCE = ''blog2buzz''"

definition UTM_CAMPAIGN :: string where
  "UTM_CAMPAIGN = ''content-repurpose''"

text \<open>The list of \<^verbatim>\<open>url.searchParams\<close> after the three \<^verbatim>\<open>set\<close> calls and the overrides
  (\<^verbatim>\<open>Object.entries(overrideParams)\<close>, in order).\<close>

definition trackedParams ::
    "(string \<times> string) list \<Rightarrow> OutputType \<Rightarrow> (string \<times> string) list option
      \<Rightarrow> (string \<times> string) list" where
  "trackedParams l medium overrideParams =
     (let l1 = searchParams_set ''utm_source'' UTM_SOURCE l;
          l2 = searchParams_set ''utm_medium'' (OutputType_str medium) l1;
          l3 = searchParams_set ''utm_campaign'' UTM_CAMPAIGN l2
      in case overrideParams of
           None \<Rightarrow> l3
         | Some entries \<Rightarrow> foldl (\<lambda>acc kv. searchParams_set (fst kv) (snd kv) acc) l3 entries)"

text \<open>The URL object at the end of \<^verbatim>\<open>buildTrackedUrl\<close>, before \<^verbatim>\<open>toString\<close>.\<close>

definition trackedUrl ::
    "url_api \<Rightarrow> url \<Rightarrow> OutputType \<Rightarrow> (string \<times> string) list option \<Rightarrow> url" where
  "trackedUrl A u medium overrideParams =
     update_query A (trackedParams (searchParams A u) medium overrideParams) u"

definition buildTrackedUrl ::
    "url_api \<Rightarrow> string \<Rightarrow> OutputType \<Rightarrow> (string \<times> string) list option \<Rightarrow> thrown + string" where
  "buildTrackedUrl A href medium overrideParams =
     (case new_URL A href None of
        Inl e \<Rightarrow> Inl e
      | Inr u \<Rightarrow> Inr (URL_toString A (trackedUrl A u medium overrideParams)))"

text \<open>The names that \<^verbatim>\<open>buildTrackedUrl\<close> sets: the three UTM keys and the override keys.\<close>

definition tracked_keys :: "(string \<times> string) list option \<Rightarrow> string set" where
  "tracked_keys overrideParams =
     {''utm_source'', ''utm_medium'', ''utm_campaign''} \<union>
     (case overrideParams of None \<Rightarrow> {} | Some entries \<Rightarrow> fst ` set entries)"

subsection \<open>\<^verbatim>\<open>lib/extract.ts\<close>: the canonical URL\<close>

text \<open>An element as the code reads it: the \<^verbatim>\<open>href\<close> property (the empty string when the
  element has none) and \<^verbatim>\<open>getAttribute\<close>. A document is read through \<^verbatim>\<open>querySelector\<close>
  (the first element that matches the selector), \<^verbatim>\<open>title\<close> and \<^verbatim>\<open>body.textContent\<close>.\<close>

record element =
  elem_href :: string
  elem_attributes :: "(string \<times> string) list"

definition getAttribute :: "element \<Rightarrow> string \<Rightarrow> string option" where
  "getAttribute e name = map_of (elem_attributes e) name"

record document =
  querySelector :: "string \<Rightarrow> element option"
  doc_title :: string
  body_textContent :: "string option"

datatype canonical_source = FromLink | FromOg | FromTwitter | FromInput

definition resolveCanonical :: "url_api \<Rightarrow> string \<Rightarrow> string option \<Rightarrow> string" where
  "resolveCanonical A url href =
     (if \<not> truthy href then url
      else case new_URL A (the href) (Some url) of
             Inr u \<Rightarrow> URL_toString A u
           | Inl e \<Rightarrow> url)"

record CanonicalResult =
  href :: string
  canonical_source :: canonical_source

definition getCanonical :: "url_api \<Rightarrow> document \<Rightarrow> string \<Rightarrow> CanonicalResult" where
  "getCanonical A doc url =
     (let linkEl = querySelector doc ''link[rel='canonical']'' in
      if truthy (map_option elem_href linkEl)
      then \<lparr>href = resolveCanonical A url (map_option elem_href linkEl), canonical_source = FromLink\<rparr>
      else
        let ogUrl = Option.bind (querySelector doc ''meta[property='og:url']'')
                      (\<lambda>e. getAttribute e ''content'') in
        if truthy ogUrl
        then \<lparr>href = resolveCanonical A url ogUrl, canonical_source = FromOg\<rparr>
        else
          let twitterUrl = Option.bind (querySelector doc ''meta[name='twitter:url']'')
                             (\<lambda>e. getAttribute e ''content'') in
          if truthy twitterUrl
          then \<lparr>href = resolveCanonical A url twitterUrl, canonical_source = FromTwitter\<rparr>
          else \<lparr>href = url, canonical_source = FromInput\<rparr>)"

subsection \<open>\<^verbatim>\<open>lib/prompts.ts\<close>\<close>

fun toneGuidance :: "Tone \<Rightarrow> string" where
  "toneGuidance Conversational =
     ''Adopt a warm, conversational tone with clear transitions and short paragraphs.''"
| "toneGuidance Professional =
     ''Use a confident, professional voice with crisp sentences and thoughtful structure.''"
| "toneGuidance Playful =
     ''Lean into an upbeat, playful tone that still communicates the core ideas clearly.''"

definition outputToneFallback :: string where
  "outputToneFallback = ''Default to a friendly, confident tone that is easy to skim.''"

fun SOCIAL_PLATFORM_DESCRIPTIONS :: "SocialPlatform \<Rightarrow> string" where
  "SOCIAL_PLATFORM_DESCRIPTIONS Twitter =
     ''Create a concise thread style update using plain language, emojis, and up to two relevant hashtags. Keep each Tweet under 250 characters.''"
| "SOCIAL_PLATFORM_DESCRIPTIONS Linkedin =
     ''Write a short LinkedIn caption that highlights the key takeaway and invites discussion. Use 2-3 professional yet friendly sentences and add one relevant hashtag.''"
| "SOCIAL_PLATFORM_DESCRIPTIONS Instagram =
     ''Draft an Instagram caption with an engaging hook, a short summary in 2-3 sentences, and a strong call-to-action emoji. Include 2-3 short hashtags.''"

definition buildBacklinkInstruction :: "BlogMetadata \<Rightarrow> string" where
  \<open>buildBacklinkInstruction md =
     (let anchor = ''<a href="'' @ canonicalUrl md @
                   ''" rel="noopener noreferrer">Read the full article</a>''
      in replace_first ''">'' ''" data-utm="true">'' anchor)\<close>

text \<open>The array of \<^verbatim>\<open>sharedContext\<close> before \<^verbatim>\<open>filter(Boolean)\<close> and \<^verbatim>\<open>join\<close>. The argument
  \<open>t\<close> is the tone after the default of the parameter list has been applied.\<close>

definition sharedContext_parts :: "BlogMetadata \<Rightarrow> Tone \<Rightarrow> string \<Rightarrow> string list" where
  "sharedContext_parts md t backlinkAnchor =
     [''You are Blog2Buzz, an AI writing assistant that repurposes blog posts into channel-ready formats.'',
      ''The generated content must stand alone, read naturally, and entice readers to click back to the source article.'',
      ''Original article title: '' @ (case title md of None \<Rightarrow> ''Untitled'' | Some x \<Rightarrow> x) @ ''.'',
      (if truthy (author md) then ''Primary author: '' @ the (author md) @ ''.'' else []),
      (if truthy (excerpt md) then ''Key excerpt from the article: '' @ the (excerpt md) else []),
      ''Total word count (approximate): '' @
        (case wordCount md of None \<Rightarrow> ''unknown'' | Some n \<Rightarrow> string_of_nat n) @ ''.'',
      (if truthy (Some (Tone_str t)) then toneGuidance t else outputToneFallback),
      ''Always embed this backlink exactly once in the most natural spot: '' @ backlinkAnchor @ ''.'',
      ''Do not invent facts. If a detail is missing in the source text, skip it.'']"

definition sharedContext :: "BlogMetadata \<Rightarrow> Tone \<Rightarrow> string \<Rightarrow> string" where
  "sharedContext md t backlinkAnchor =
     join ''\<newline>'' (filter (\<lambda>x. x \<noteq> []) (sharedContext_parts md t backlinkAnchor))"

definition platformGuidance :: "SocialPlatform list \<Rightarrow> string" where
  "platformGuidance platforms =
     join ''\<newline>\<newline>''
       (map (\<lambda>platform. ''For '' @ toUpperCase (SocialPlatform_str platform) @ '':\<newline>'' @
                          SOCIAL_PLATFORM_DESCRIPTIONS platform) platforms)"

text \<open>The parameters \<open>platformsArg\<close> and \<open>toneArg\<close> are optional (\<open>None\<close> is \<^verbatim>\<open>undefined\<close>):
  the parameter list gives them the defaults of all three platforms and \<^verbatim>\<open>"conversational"\<close>.\<close>

definition buildPrompt ::
    "OutputType \<Rightarrow> string \<Rightarrow> BlogMetadata \<Rightarrow> SocialPlatform list option \<Rightarrow> Tone option
      \<Rightarrow> string" where
  \<open>buildPrompt outputType blogText md platformsArg toneArg =
     (let platforms = (case platformsArg of None \<Rightarrow> [Twitter, Linkedin, Instagram] | Some ps \<Rightarrow> ps);
          t = (case toneArg of None \<Rightarrow> Conversational | Some x \<Rightarrow> x);
          backlinkAnchor = buildBacklinkInstruction md;
          shared = sharedContext md t backlinkAnchor
      in case outputType of
        Newsletter \<Rightarrow>
          shared @ ''\<newline>\<newline>'' @
          ''Generate HTML for a newsletter update that includes:\<newline>'' @
          ''- A warm intro framing why this article matters.\<newline>'' @
          ''- 2-3 short paragraphs that summarize the key insights without repeating the entire article.\<newline>'' @
          ''- A bulleted list of 3 sharp takeaways or action items.\<newline>'' @
          ''- A closing sentence that nudges readers to explore more, followed immediately by the backlink anchor.\<newline>'' @
          ''\<newline>'' @
          ''Formatting rules:\<newline>'' @
          ''- Use semantic HTML (<article>, <h2>, <p>, <ul>, <li>, <strong>).\<newline>'' @
          ''- Keep paragraphs under 60 words.\<newline>'' @
          ''- Never include placeholder text.\<newline>'' @
          ''\<newline>'' @
          ''Backlink anchor to insert: '' @ backlinkAnchor @ ''\<newline>'' @
          ''\<newline>'' @
          ''Source article content:\<newline>'' @
          blogText
      | Email \<Rightarrow>
          shared @ ''\<newline>\<newline>'' @
          ''Generate HTML for a marketing email snippet ready to drop into a campaign tool. Requirements:\<newline>'' @
          ''- Subject line suggestion in a <p data-role="subject"> element (max 55 characters).\<newline>'' @
          ''- Preheader suggestion in a <p data-role="preheader"> element (max 90 characters).\<newline>'' @
          ''- Body content inside a <section data-role="body"> wrapping:\<newline>'' @
          ''  - A friendly greeting.\<newline>'' @
          ''  - 2 concise paragraphs covering the core narrative.\<newline>'' @
          ''  - A short bulleted or numbered list of the main highlights.\<newline>'' @
          ''  - A single call-to-action button (<a> styled inline) that uses the backlink anchor.\<newline>'' @
          ''- An optional postscript (<p data-role="ps">) if there's a timely hook.\<newline>'' @
          ''\<newline>'' @
          ''Favor approachable, professional language that still feels personal.\<newline>'' @
          ''\<newline>'' @
          ''Backlink anchor to insert inside the CTA button: '' @ backlinkAnchor @ ''\<newline>'' @
          ''\<newline>'' @
          ''Source article content:\<newline>'' @
          blogText
      | Social \<Rightarrow>
          shared @ ''\<newline>\<newline>'' @
          ''Generate HTML that contains a <section> element for each requested platform. Each section must have:\<newline>'' @
          ''- data-platform attribute set to the platform name (twitter, linkedin, instagram).\<newline>'' @
          ''- A <h3> heading naming the platform.\<newline>'' @
          ''- A <p> with the suggested copy.\<newline>'' @
          ''- The backlink anchor appended at the end of the copy, using natural connective text (e.g., "Read more").\<newline>'' @
          ''\<newline>'' @
          ''Platform-specific rules:\<newline>'' @
          platformGuidance platforms @ ''\<newline>'' @
          ''\<newline>'' @
          ''Always keep emoji use relevant and tasteful.\<newline>'' @
          ''Never repeat the exact same wording across platforms.\<newline>'' @
          ''\<newline>'' @
          ''Backlink anchor to include in each section: '' @ backlinkAnchor @ ''\<newline>'' @
          ''\<newline>'' @
          ''Source article content:\<newline>'' @
          blogText)\<close>

subsection \<open>\<^verbatim>\<open>app/api/convert/route.ts\<close>: sanitising the model's text\<close>

text \<open>The constant \<^verbatim>\<open>cleaned\<close> of \<^verbatim>\<open>sanitizeModelHtml\<close>.\<close>

definition cleaned_output :: "string \<Rightarrow> string" where
  "cleaned_output output =
     trim (remove_all False [CHR 0xE2, CHR 0x80, CHR 0x8B]
            (remove_all False ''```'' (remove_all True ''```html'' output)))"

definition placeholder :: string where
  "placeholder = ''<p>We weren't able to generate this output. Please try again.</p>''"

definition sanitizeModelHtml :: "string \<Rightarrow> string \<Rightarrow> string" where
  \<open>sanitizeModelHtml output canonicalUrlArg =
     (let cleaned = cleaned_output output in
      if cleaned = [] then placeholder
      else if \<not> str_includes cleaned canonicalUrlArg
        then cleaned @ ''\<newline><p><a href="'' @ canonicalUrlArg @ ''">Read the full article</a></p>''
        else cleaned)\<close>

text \<open>The pieces of a model text that has nothing but fence markers, zero-width spaces and
  white space: \<^verbatim>\<open>```html\<close> in any case, \<^verbatim>\<open>```\<close>, U+200B, and the white space of \<^verbatim>\<open>trim\<close>.\<close>

definition zero_width_space :: string where
  "zero_width_space = [CHR 0xE2, CHR 0x80, CHR 0x8B]"

definition fence_html_token :: "string \<Rightarrow> bool" where
  "fence_html_token t \<longleftrightarrow> length t = 7 \<and> toUpperCase t = ''```HTML''"

definition filler_token :: "string \<Rightarrow> bool" where
  "filler_token t \<longleftrightarrow>
     fence_html_token t \<or> t = ''```'' \<or> t = zero_width_space \<or> t \<in> set js_whitespace"

text \<open>What may follow a fence marker without making a new match with it.\<close>

definition no_html_ahead :: "string \<Rightarrow> bool" where
  "no_html_ahead r \<longleftrightarrow>
     r = [] \<or> prefix ''```'' r \<or> (hd r \<noteq> CHR 0x60 \<and> ascii_upper (hd r) \<noteq> CHR ''H'')"




subsection \<open>JSON values and the request schema\<close>

text \<open>The value of \<^verbatim>\<open>request.json()\<close>. The pairs of a \<open>JObject\<close> are the object's own
  properties, and a lookup takes the first pair of a key.\<close>

datatype json =
    JNull
  | JBool bool
  | JNumber rat
  | JString string
  | JArray "json list"
  | JObject "(string \<times> json) list"

text \<open>The type of a value as zod names it; \<open>None\<close> is \<^verbatim>\<open>undefined\<close> (a missing key).\<close>

fun parsedType :: "json option \<Rightarrow> string" where
  "parsedType None = ''undefined''"
| "parsedType (Some JNull) = ''null''"
| "parsedType (Some (JBool b)) = ''boolean''"
| "parsedType (Some (JNumber n)) = ''number''"
| "parsedType (Some (JString s)) = ''string''"
| "parsedType (Some (JArray xs)) = ''array''"
| "parsedType (Some (JObject kvs)) = ''object''"

text \<open>An issue of zod 3: its code (with the expected and the received type, or the options
  and the received value) and the message the schema gives for it, if it gives one. The
  message of an issue without one comes from zod's error map, a field of \<open>world\<close>.\<close>

datatype zod_code =
    invalid_type string string
  | invalid_enum_value "string list" string
  | too_small
  | invalid_string

type_synonym zod_issue = "zod_code \<times> string option"

fun issues_of :: "zod_issue list + 'a \<Rightarrow> zod_issue list" where
  "issues_of (Inl is) = is"
| "issues_of (Inr x) = []"

text \<open>The results of the elements of an array: all values, or all issues in order.\<close>

fun collect :: "(zod_issue list + 'a) list \<Rightarrow> zod_issue list + 'a list" where
  "collect [] = Inr []"
| "collect (r # rs) =
     (case (r, collect rs) of
        (Inr x, Inr xs) \<Rightarrow> Inr (x # xs)
      | (a, b) \<Rightarrow> Inl (issues_of a @ issues_of b))"

definition joinValues :: "string list \<Rightarrow> string" where
  "joinValues vs = join '' | '' (map (\<lambda>v. [CHR 0x27] @ v @ [CHR 0x27]) vs)"

definition z_enum :: "(string \<times> 'a) list \<Rightarrow> json option \<Rightarrow> zod_issue list + 'a" where
  "z_enum options input =
     (case input of
        Some (JString s) \<Rightarrow>
          (case map_of options s of
             Some v \<Rightarrow> Inr v
           | None \<Rightarrow> Inl [(invalid_enum_value (map fst options) s, None)])
      | _ \<Rightarrow> Inl [(invalid_type (joinValues (map fst options)) (parsedType input), None)])"

definition z_string :: "json option \<Rightarrow> zod_issue list + string" where
  "z_string input =
     (case input of
        Some (JString s) \<Rightarrow> Inr s
      | _ \<Rightarrow> Inl [(invalid_type ''string'' (parsedType input), None)])"

definition z_string_min :: "nat \<Rightarrow> string \<Rightarrow> json option \<Rightarrow> zod_issue list + string" where
  "z_string_min n msg input =
     (case z_string input of
        Inl is \<Rightarrow> Inl is
      | Inr s \<Rightarrow> if length s < n then Inl [(too_small, Some msg)] else Inr s)"

text \<open>\<^verbatim>\<open>z.string().url()\<close>: the string must be accepted by \<^verbatim>\<open>new URL\<close>.\<close>

definition z_string_url :: "url_api \<Rightarrow> json option \<Rightarrow> zod_issue list + string" where
  "z_string_url A input =
     (case z_string input of
        Inl is \<Rightarrow> Inl is
      | Inr s \<Rightarrow>
          (case new_URL A s None of
             Inl e \<Rightarrow> Inl [(invalid_string, None)]
           | Inr u \<Rightarrow> Inr s))"

definition z_optional ::
    "(json option \<Rightarrow> zod_issue list + 'a) \<Rightarrow> json option \<Rightarrow> zod_issue list + 'a option" where
  "z_optional schema input =
     (case input of
        None \<Rightarrow> Inr None
      | Some j \<Rightarrow> (case schema (Some j) of Inl is \<Rightarrow> Inl is | Inr v \<Rightarrow> Inr (Some v)))"

text \<open>\<^verbatim>\<open>z.array(schema)\<close> with an optional \<^verbatim>\<open>.min(n, msg)\<close>: the length is checked first,
  then every element.\<close>

definition z_array ::
    "(nat \<times> string) option \<Rightarrow> (json option \<Rightarrow> zod_issue list + 'a) \<Rightarrow> json option
      \<Rightarrow> zod_issue list + 'a list" where
  "z_array minCheck schema input =
     (case input of
        Some (JArray xs) \<Rightarrow>
          (let tooSmall =
                 (case minCheck of
                    None \<Rightarrow> []
                  | Some (n, msg) \<Rightarrow> if length xs < n then [(too_small, Some msg)] else [])
           in case (tooSmall, collect (map (\<lambda>x. schema (Some x)) xs)) of
                ([], Inr vs) \<Rightarrow> Inr vs
              | (is, r) \<Rightarrow> Inl (is @ issues_of r))
      | _ \<Rightarrow> Inl [(invalid_type ''array'' (parsedType input), None)])"

text \<open>\<^verbatim>\<open>REQUEST_SCHEMA.safeParse(body)\<close>: the issues of all keys, in the order of the schema,
  or the parsed data.\<close>

definition REQUEST_SCHEMA :: "url_api \<Rightarrow> json \<Rightarrow> zod_issue list + ConvertRequestPayload" where
  "REQUEST_SCHEMA A input =
     (case input of
        JObject kvs \<Rightarrow>
          (let r1 = z_enum [(''url'', SourceUrl), (''text'', SourceText)] (map_of kvs ''sourceType'');
               r2 = z_string_min 1 ''Provide a blog URL or the article text.'' (map_of kvs ''source'');
               r3 = z_array (Some (1, ''Select at least one output format.''))
                      (z_enum [(''newsletter'', Newsletter), (''social'', Social), (''email'', Email)])
                      (map_of kvs ''outputTypes'');
               r4 = z_optional
                      (z_array None
                        (z_enum [(''twitter'', Twitter), (''linkedin'', Linkedin), (''instagram'', Instagram)]))
                      (map_of kvs ''socialPlatforms'');
               r5 = z_optional
                      (z_enum [(''conversational'', Conversational), (''professional'', Professional),
                               (''playful'', Playful)])
                      (map_of kvs ''tone'');
               r6 = z_optional (z_string_url A) (map_of kvs ''canonicalUrl'');
               r7 = z_optional z_string (map_of kvs ''articleTitle'');
               r8 = z_optional z_string (map_of kvs ''articleAuthor'')
           in case (r1, r2, r3, r4, r5, r6, r7, r8) of
                (Inr v1, Inr v2, Inr v3, Inr v4, Inr v5, Inr v6, Inr v7, Inr v8) \<Rightarrow>
                  Inr \<lparr>sourceType = v1, source = v2, outputTypes = v3, socialPlatforms = v4,
                       tone = v5, reqCanonicalUrl = v6, articleTitle = v7, articleAuthor = v8\<rparr>
              | _ \<Rightarrow>
                  Inl (issues_of r1 @ issues_of r2 @ issues_of r3 @ issues_of r4 @
                       issues_of r5 @ issues_of r6 @ issues_of r7 @ issues_of r8))
      | _ \<Rightarrow> Inl [(invalid_type ''object'' (parsedType (Some input)), None)])"

subsection \<open>The collaborators\<close>

text \<open>A \<^verbatim>\<open>fetch\<close> response, as far as the code reads it.\<close>

record fetch_response =
  ok :: bool
  resp_status :: nat
  statusText :: string
  resp_text :: "thrown + string"

text \<open>The article of \<^verbatim>\<open>Readability.parse()\<close>, as far as the code reads it.\<close>

record article =
  art_title :: "string option"
  byline :: "string option"
  art_excerpt :: "string option"
  textContent :: "string option"
  art_length :: "nat option"

record ExtractedArticle =
  content :: string
  ex_metadata :: BlogMetadata
  html :: string

text \<open>The row that \<^verbatim>\<open>persistConversion\<close> inserts into the table \<^verbatim>\<open>conversions\<close>.\<close>

record conversion_row =
  source_type :: SourceType
  row_tone :: Tone
  output_types :: "OutputType list"
  social_platforms :: "SocialPlatform list"
  canonical_url :: string
  article_title :: "string option"
  article_author :: "string option"
  row_outputs :: "OutputType \<rightharpoonup> string"
  raw_content :: string
  row_metadata :: BlogMetadata

text \<open>A Supabase client, as far as the code uses it: \<^verbatim>\<open>from("conversions").insert(row)\<close>
  resolves to an object whose \<^verbatim>\<open>error\<close> is \<open>None\<close> or the error the service reports, or it
  throws.\<close>

type_synonym supabase_client = "conversion_row \<Rightarrow> thrown + string option"

text \<open>\<^verbatim>\<open>generateContent\<close> takes the API key and the model name the client was built from,
  the number of calls made before in this request, and the prompt; it gives
  \<^verbatim>\<open>response.response.text()\<close> or throws.\<close>

record world =
  url_lib :: url_api
  zod_errorMap :: "zod_code \<Rightarrow> string"
  GEMINI_API_KEY :: "string option"
  GEMINI_MODEL :: "string option"
  SUPABASE_URL :: "string option"
  SUPABASE_SERVICE_ROLE_KEY :: "string option"
  fetch :: "string \<Rightarrow> thrown + fetch_response"
  JSDOM :: "string \<Rightarrow> string \<Rightarrow> thrown + document"
  Readability_parse :: "document \<Rightarrow> thrown + article option"
  generateContent :: "string \<Rightarrow> string \<Rightarrow> nat \<Rightarrow> string \<Rightarrow> thrown + string"
  createClient :: "string \<Rightarrow> string \<Rightarrow> thrown + supabase_client"

text \<open>What the server keeps or writes outside a request: the lines of \<^verbatim>\<open>console.error\<close>
  and the module variable \<^verbatim>\<open>supabaseAdminClient\<close>.\<close>

datatype log_payload = Thrown thrown | PostgrestError string

record server_state =
  console :: "(string \<times> log_payload) list"
  supabaseAdminClient :: "supabase_client option"

definition console_error :: "string \<Rightarrow> log_payload \<Rightarrow> server_state \<Rightarrow> server_state" where
  "console_error msg payload st = st\<lparr>console := console st @ [(msg, payload)]\<rparr>"

subsection \<open>\<^verbatim>\<open>lib/extract.ts\<close>: the article\<close>

definition starts_with_ws :: "string \<Rightarrow> bool" where
  "starts_with_ws s = (List.find (\<lambda>w. w \<noteq> [] \<and> prefix w s) js_whitespace \<noteq> None)"

lemma length_strip_leading: "length (strip_leading ws s) \<le> length s"
proof (induction ws s rule: strip_leading.induct)
  case (1 ws)
  then show ?case by simp
next
  case (2 ws c s)
  show ?case
  proof (cases "List.find (\<lambda>w. w \<noteq> [] \<and> prefix w (c # s)) ws")
    case None
    then show ?thesis by simp
  next
    case (Some w)
    with 2 have "length (strip_leading ws (drop (length w - 1) s)) \<le> length (drop (length w - 1) s)"
      by simp
    with Some show ?thesis by simp
  qed
qed

text \<open>\<^verbatim>\<open>s.replace(/\s+/g, " ")\<close>: every maximal run of white space becomes one space.\<close>

function collapse_ws :: "string \<Rightarrow> string" where
  "collapse_ws [] = []"
| "collapse_ws (c # s) =
     (if starts_with_ws (c # s)
      then CHR '' '' # collapse_ws (strip_leading js_whitespace (c # s))
      else c # collapse_ws s)"
  by pat_completeness auto
termination
proof (relation "measure length")
  show "wf (measure length)" by simp
next
  fix c :: char and s :: string
  assume "starts_with_ws (c # s)"
  then obtain w where w: "List.find (\<lambda>w. w \<noteq> [] \<and> prefix w (c # s)) js_whitespace = Some w"
    by (auto simp: starts_with_ws_def)
  have "length (strip_leading js_whitespace (drop (length w - 1) s)) \<le> length s"
    using length_strip_leading [of js_whitespace "drop (length w - 1) s"] by simp
  with w show "(strip_leading js_whitespace (c # s), c # s) \<in> measure length"
    by simp
next
  fix c :: char and s :: string
  show "(s, c # s) \<in> measure length" by simp
qed

definition extractArticleFromUrl :: "world \<Rightarrow> string \<Rightarrow> thrown + ExtractedArticle" where
  "extractArticleFromUrl W url =
     (case fetch W url of
        Inl e \<Rightarrow> Inl e
      | Inr response \<Rightarrow>
          if \<not> ok response
          then Inl (Error (''Unable to fetch content. Received status '' @
                           string_of_nat (resp_status response) @ '' ('' @
                           statusText response @ '').''))
          else
            (case resp_text response of
               Inl e \<Rightarrow> Inl e
             | Inr page \<Rightarrow>
                 (case JSDOM W page url of
                    Inl e \<Rightarrow> Inl e
                  | Inr doc \<Rightarrow>
                      (case Readability_parse W doc of
                         Inl e \<Rightarrow> Inl e
                       | Inr art \<Rightarrow>
                           (let text_content =
                                  (case Option.bind art textContent of
                                     Some t \<Rightarrow> trim t
                                   | None \<Rightarrow>
                                       (case body_textContent doc of
                                          Some b \<Rightarrow> trim (collapse_ws b)
                                        | None \<Rightarrow> []))
                            in if text_content = []
                               then Inl (Error ''We couldn't extract readable content from this URL.'')
                               else
                                 (let canonical = getCanonical (url_lib W) doc url;
                                      md = \<lparr>title = (case Option.bind art art_title of
                                                         Some t \<Rightarrow> Some t
                                                       | None \<Rightarrow> Some (doc_title doc)),
                                            author = Option.bind art byline,
                                            canonicalUrl = href canonical,
                                            wordCount = (case Option.bind art art_length of
                                                           None \<Rightarrow> None
                                                         | Some n \<Rightarrow>
                                                             if n = 0 then None
                                                             else Some ((n + 2) div 5)),
                                            excerpt = Option.bind art art_excerpt\<rparr>
                                  in Inr \<lparr>content = text_content, ex_metadata = md,
                                          html = page\<rparr>))))))"

subsection \<open>\<^verbatim>\<open>lib/supabase.ts\<close>\<close>

definition createSupabaseAdminClient ::
    "world \<Rightarrow> server_state \<Rightarrow> (thrown + supabase_client option) \<times> server_state" where
  "createSupabaseAdminClient W st =
     (if truthy (SUPABASE_URL W) \<and> truthy (SUPABASE_SERVICE_ROLE_KEY W)
      then
        (case supabaseAdminClient st of
           Some client \<Rightarrow> (Inr (Some client), st)
         | None \<Rightarrow>
             (case createClient W (the (SUPABASE_URL W)) (the (SUPABASE_SERVICE_ROLE_KEY W)) of
                Inl e \<Rightarrow> (Inl e, st)
              | Inr client \<Rightarrow> (Inr (Some client), st\<lparr>supabaseAdminClient := Some client\<rparr>)))
      else (Inr None, st))"

definition getSupabaseAdminClient ::
    "world \<Rightarrow> server_state \<Rightarrow> (thrown + supabase_client option) \<times> server_state" where
  "getSupabaseAdminClient W st = createSupabaseAdminClient W st"

subsection \<open>\<^verbatim>\<open>app/api/convert/route.ts\<close>\<close>

definition DEFAULT_PLATFORMS :: "SocialPlatform list" where
  "DEFAULT_PLATFORMS = [Twitter, Linkedin, Instagram]"

definition DEFAULT_TONE :: Tone where
  "DEFAULT_TONE = Conversational"

text \<open>The arguments are the fields of \<^verbatim>\<open>PersistConversionArgs\<close>. The result is \<open>Inr ()\<close> when
  the function returns and \<open>Inl e\<close> when it throws \<open>e\<close>.\<close>

definition persistConversion ::
    "world \<Rightarrow> server_state \<Rightarrow> SourceType \<Rightarrow> Tone \<Rightarrow> OutputType list \<Rightarrow> SocialPlatform list
      \<Rightarrow> BlogMetadata \<Rightarrow> (OutputType \<rightharpoonup> string) \<Rightarrow> string
      \<Rightarrow> (thrown + unit) \<times> server_state" where
  "persistConversion W st srcType t outTypes platforms md outs cont =
     (case getSupabaseAdminClient W st of
        (Inl e, st1) \<Rightarrow> (Inl e, st1)
      | (Inr None, st1) \<Rightarrow> (Inr (), st1)
      | (Inr (Some supabase), st1) \<Rightarrow>
          (case supabase \<lparr>source_type = srcType, row_tone = t, output_types = outTypes,
                          social_platforms = platforms, canonical_url = canonicalUrl md,
                          article_title = title md, article_author = author md,
                          row_outputs = outs, raw_content = cont, row_metadata = md\<rparr> of
             Inl e \<Rightarrow> (Inl e, st1)
           | Inr None \<Rightarrow> (Inr (), st1)
           | Inr (Some err) \<Rightarrow>
               (Inr (), console_error ''[convert] Failed to persist conversion''
                          (PostgrestError err) st1)))"

definition ensureApiKey :: "world \<Rightarrow> thrown + string" where
  "ensureApiKey W =
     (if \<not> truthy (GEMINI_API_KEY W)
      then Inl (Error ''Gemini API key is missing. Add GEMINI_API_KEY to your environment.'')
      else Inr (the (GEMINI_API_KEY W)))"

text \<open>The model object is the pair of the API key and the model name it was built from;
  \<open>n\<close> counts the calls made before.\<close>

definition generateOutput ::
    "world \<Rightarrow> string \<times> string \<Rightarrow> nat \<Rightarrow> OutputType \<Rightarrow> string \<Rightarrow> string \<Rightarrow> thrown + string" where
  "generateOutput W model n outputType prompt canonical =
     (case generateContent W (fst model) (snd model) n prompt of
        Inl e \<Rightarrow> Inl e
      | Inr response_text \<Rightarrow> Inr (sanitizeModelHtml response_text canonical))"

text \<open>\<^verbatim>\<open>Array.from(new Set(xs))\<close>: the first occurrence of every element, in order.\<close>

definition uniq :: "'a list \<Rightarrow> 'a list" where
  "uniq xs = rev (remdups (rev xs))"

text \<open>The \<^verbatim>\<open>for\<close> loop of \<^verbatim>\<open>POST\<close> over \<^verbatim>\<open>outputTypes\<close>; \<open>outs\<close> is the object \<^verbatim>\<open>outputs\<close>.\<close>

fun generate_loop ::
    "world \<Rightarrow> string \<times> string \<Rightarrow> string \<Rightarrow> BlogMetadata \<Rightarrow> SocialPlatform list \<Rightarrow> Tone option
      \<Rightarrow> OutputType list \<Rightarrow> nat \<Rightarrow> (OutputType \<rightharpoonup> string)
      \<Rightarrow> thrown + (OutputType \<rightharpoonup> string)" where
  "generate_loop W model cont md platforms toneArg [] n outs = Inr outs"
| "generate_loop W model cont md platforms toneArg (outputType # rest) n outs =
     (case buildTrackedUrl (url_lib W) (canonicalUrl md) outputType None of
        Inl e \<Rightarrow> Inl e
      | Inr trackedCanonical \<Rightarrow>
          (let prompt = buildPrompt outputType cont (md\<lparr>canonicalUrl := trackedCanonical\<rparr>)
                          (Some platforms)
                          (Some (case toneArg of None \<Rightarrow> DEFAULT_TONE | Some t \<Rightarrow> t))
           in case generateOutput W model n outputType prompt trackedCanonical of
                Inl e \<Rightarrow> Inl e
              | Inr page \<Rightarrow>
                  generate_loop W model cont md platforms toneArg rest (Suc n)
                    (outs(outputType \<mapsto> page))))"

datatype response_body =
    ErrorBody string "string list option"
  | ResultBody ConvertResponsePayload

record http_response =
  status :: nat
  body :: response_body

definition issue_message :: "world \<Rightarrow> zod_issue \<Rightarrow> string" where
  "issue_message W issue =
     (case snd issue of Some msg \<Rightarrow> msg | None \<Rightarrow> zod_errorMap W (fst issue))"

text \<open>The content and the metadata of \<^verbatim>\<open>POST\<close> (the \<^verbatim>\<open>if\<close> on \<^verbatim>\<open>sourceType\<close>): what the
  extraction throws, or the early response 400 for pasted text without a canonical URL, or
  the content with the metadata.\<close>

definition resolve_source ::
    "world \<Rightarrow> ConvertRequestPayload \<Rightarrow> thrown + (http_response + string \<times> BlogMetadata)" where
  "resolve_source W parsed =
     (if sourceType parsed = SourceUrl
      then (case extractArticleFromUrl W (source parsed) of
              Inl e \<Rightarrow> Inl e
            | Inr art \<Rightarrow> Inr (Inr (content art, ex_metadata art)))
      else if \<not> truthy (reqCanonicalUrl parsed)
        then Inr (Inl \<lparr>status = 400,
                       body = ErrorBody
                         ''Provide the original blog URL so we can add a backlink when pasting raw text.''
                         None\<rparr>)
        else Inr (Inr (source parsed,
                       \<lparr>title = articleTitle parsed, author = articleAuthor parsed,
                        canonicalUrl = the (reqCanonicalUrl parsed),
                        wordCount = None, excerpt = None\<rparr>)))"

text \<open>The \<^verbatim>\<open>try\<close> block of \<^verbatim>\<open>POST\<close> up to the call of \<^verbatim>\<open>persistConversion\<close>: what it
  throws, or the response it returns early, or the parsed request, the platforms and the
  response payload with which it goes on. \<open>request\<close> is the outcome of
  \<^verbatim>\<open>request.json()\<close>.\<close>

definition POST_until_persist ::
    "world \<Rightarrow> thrown + json
      \<Rightarrow> thrown + (http_response + ConvertRequestPayload \<times> SocialPlatform list \<times> ConvertResponsePayload)" where
  "POST_until_persist W request =
     (case request of
        Inl e \<Rightarrow> Inl e
      | Inr input \<Rightarrow>
     (case REQUEST_SCHEMA (url_lib W) input of
        Inl issues \<Rightarrow>
          Inr (Inl \<lparr>status = 400,
                    body = ErrorBody ''Invalid input.'' (Some (map (issue_message W) issues))\<rparr>)
      | Inr parsed \<Rightarrow>
     (case resolve_source W parsed of
        Inl e \<Rightarrow> Inl e
      | Inr (Inl early) \<Rightarrow> Inr (Inl early)
      | Inr (Inr (cont, md0)) \<Rightarrow>
     (let md = md0\<lparr>title := (case articleTitle parsed of Some t \<Rightarrow> Some t | None \<Rightarrow> title md0),
                   author := (case articleAuthor parsed of Some a \<Rightarrow> Some a | None \<Rightarrow> author md0)\<rparr>
      in case ensureApiKey W of
        Inl e \<Rightarrow> Inl e
      | Inr apiKey \<Rightarrow>
     (let model = (apiKey, (case GEMINI_MODEL W of Some m \<Rightarrow> m | None \<Rightarrow> ''gemini-2.0-flash''));
          platforms = (case socialPlatforms parsed of
                         None \<Rightarrow> DEFAULT_PLATFORMS
                       | Some ps \<Rightarrow> if length ps = 0 then DEFAULT_PLATFORMS else uniq ps)
      in case generate_loop W model cont md platforms (tone parsed) (outputTypes parsed) 0 Map.empty of
        Inl e \<Rightarrow> Inl e
      | Inr outs \<Rightarrow>
          Inr (Inr (parsed, platforms, \<lparr>outputs = outs, metadata = md, rawContent = cont\<rparr>)))))))"

text \<open>Whether the \<^verbatim>\<open>try\<close> block gets to the call of \<^verbatim>\<open>persistConversion\<close>.\<close>

definition reaches_persist :: "world \<Rightarrow> thrown + json \<Rightarrow> bool" where
  "reaches_persist W request =
     (case POST_until_persist W request of
        Inr (Inr x) \<Rightarrow> True
      | _ \<Rightarrow> False)"

text \<open>The whole \<^verbatim>\<open>try\<close> block: the persistence step follows, and then the response 200.\<close>

definition POST_try ::
    "world \<Rightarrow> server_state \<Rightarrow> thrown + json \<Rightarrow> (thrown + http_response) \<times> server_state" where
  "POST_try W st request =
     (case POST_until_persist W request of
        Inl e \<Rightarrow> (Inl e, st)
      | Inr (Inl early) \<Rightarrow> (Inr early, st)
      | Inr (Inr (parsed, platforms, responsePayload)) \<Rightarrow>
          (case persistConversion W st (sourceType parsed)
                  (case tone parsed of None \<Rightarrow> DEFAULT_TONE | Some t \<Rightarrow> t)
                  (outputTypes parsed) platforms (metadata responsePayload)
                  (outputs responsePayload) (rawContent responsePayload) of
             (Inl e, st1) \<Rightarrow> (Inl e, st1)
           | (Inr u, st1) \<Rightarrow> (Inr \<lparr>status = 200, body = ResultBody responsePayload\<rparr>, st1)))"

text \<open>The HTML of an output type in a response, if the response has one.\<close>

definition output_of :: "http_response \<Rightarrow> OutputType \<Rightarrow> string option" where
  "output_of response t =
     (case body response of
        ResultBody r \<Rightarrow> outputs r t
      | ErrorBody msg details \<Rightarrow> None)"

text \<open>\<^verbatim>\<open>POST\<close> with its \<^verbatim>\<open>catch\<close>: whatever the \<^verbatim>\<open>try\<close> block throws is logged and becomes
  the response 500.\<close>

definition POST :: "world \<Rightarrow> server_state \<Rightarrow> thrown + json \<Rightarrow> http_response \<times> server_state" where
  "POST W st request =
     (case POST_try W st request of
        (Inr response, st1) \<Rightarrow> (response, st1)
      | (Inl error, st1) \<Rightarrow>
          (\<lparr>status = 500,
            body = ErrorBody
                     (case error of Error msg \<Rightarrow> msg | NonError \<Rightarrow> ''Unexpected error occurred.'')
                     None\<rparr>,
           console_error ''[convert] Error'' (Thrown error) st1))"

subsection \<open>An instance of the collaborators, for the examples\<close>

text \<open>
  \<open>plain_url_api\<close> implements \<open>url_api\<close> for URLs of the form
  \<^verbatim>\<open>scheme://host/path?query#fragment\<close> without user info, port, dot segments or escapes,
  and resolves a reference that starts with \<^verbatim>\<open>/\<close> against the scheme and host of the base.
  It is not the platform's parser: it does not check the characters of the host, and it
  rejects a reference without a scheme that does not start with \<^verbatim>\<open>/\<close>, which the platform
  resolves against the base. The examples below are evaluated with it, on inputs where the
  two agree; no general theorem depends on it.
\<close>

fun split_on :: "char \<Rightarrow> string \<Rightarrow> string list" where
  "split_on c [] = [[]]"
| "split_on c (x # xs) =
     (if x = c then [] # split_on c xs
      else (case split_on c xs of
              [] \<Rightarrow> [[x]]
            | y # ys \<Rightarrow> (x # y) # ys))"

definition plain_urlencoded_parse :: "string \<Rightarrow> (string \<times> string) list" where
  "plain_urlencoded_parse q =
     map (\<lambda>s. (takeWhile (\<lambda>c. c \<noteq> CHR ''='') s,
                drop 1 (dropWhile (\<lambda>c. c \<noteq> CHR ''='') s)))
       (filter (\<lambda>s. s \<noteq> []) (split_on CHR ''&'' q))"

definition plain_urlencoded_serialize :: "(string \<times> string) list \<Rightarrow> string" where
  "plain_urlencoded_serialize l = join ''&'' (map (\<lambda>kv. fst kv @ ''='' @ snd kv) l)"

definition plain_absolute :: "string \<Rightarrow> thrown + url" where
  "plain_absolute s =
     (let before_hash = takeWhile (\<lambda>c. c \<noteq> CHR ''#'') s;
          frag = dropWhile (\<lambda>c. c \<noteq> CHR ''#'') s;
          before_query = takeWhile (\<lambda>c. c \<noteq> CHR ''?'') before_hash;
          q = dropWhile (\<lambda>c. c \<noteq> CHR ''?'') before_hash;
          sch = takeWhile (\<lambda>c. c \<noteq> CHR '':'') before_query;
          rest = dropWhile (\<lambda>c. c \<noteq> CHR '':'') before_query;
          authority = takeWhile (\<lambda>c. c \<noteq> CHR ''/'') (drop 3 rest);
          p = dropWhile (\<lambda>c. c \<noteq> CHR ''/'') (drop 3 rest)
      in if sch = [] \<or> take 3 rest \<noteq> ''://'' \<or> authority = []
         then Inl (Error ''Invalid URL'')
         else Inr \<lparr>scheme = sch, username = [], password = [], host = Some authority,
                   port = None, path = (if p = [] then ''/'' else p),
                   query = (if q = [] then None else Some (drop 1 q)),
                   fragment = (if frag = [] then None else Some (drop 1 frag))\<rparr>)"

definition plain_new_URL :: "string \<Rightarrow> string option \<Rightarrow> thrown + url" where
  "plain_new_URL s base =
     (case plain_absolute s of
        Inr u \<Rightarrow> Inr u
      | Inl e \<Rightarrow>
          (case base of
             None \<Rightarrow> Inl e
           | Some b \<Rightarrow>
               (case plain_absolute b of
                  Inl e' \<Rightarrow> Inl e'
                | Inr bu \<Rightarrow>
                    if take 1 s = ''/''
                    then plain_absolute (scheme bu @ ''://'' @ the (host bu) @ s)
                    else Inl e)))"

definition plain_URL_toString :: "url \<Rightarrow> string" where
  "plain_URL_toString u =
     scheme u @ ''://'' @ (case host u of None \<Rightarrow> [] | Some h \<Rightarrow> h) @ path u @
     (case query u of None \<Rightarrow> [] | Some q \<Rightarrow> ''?'' @ q) @
     (case fragment u of None \<Rightarrow> [] | Some f \<Rightarrow> ''#'' @ f)"

definition plain_url_api :: url_api where
  "plain_url_api =
     \<lparr>new_URL = plain_new_URL, URL_toString = plain_URL_toString,
      urlencoded_parse = plain_urlencoded_parse, urlencoded_serialize = plain_urlencoded_serialize\<rparr>"

text \<open>A world in which the Gemini key is configured, the model answers every prompt
  with \<^verbatim>\<open><p>hi</p>\<close>, Supabase is not configured and nothing can be fetched. Its
  \<^verbatim>\<open>createClient\<close> throws when the project URL does not parse, and gives a client whose
  insert reports no error otherwise.\<close>

definition example_world :: world where
  "example_world =
     \<lparr>url_lib = plain_url_api,
      zod_errorMap = (\<lambda>c. ''Invalid input''),
      GEMINI_API_KEY = Some ''key'',
      GEMINI_MODEL = None,
      SUPABASE_URL = None,
      SUPABASE_SERVICE_ROLE_KEY = None,
      fetch = (\<lambda>u. Inl (Error ''fetch failed'')),
      JSDOM = (\<lambda>page u. Inl (Error ''Invalid URL'')),
      Readability_parse = (\<lambda>d. Inr None),
      generateContent = (\<lambda>k m n p. Inr ''<p>hi</p>''),
      createClient = (\<lambda>u k. case plain_new_URL u None of
                              Inl e \<Rightarrow> Inl e
                            | Inr v \<Rightarrow> Inr (\<lambda>row. Inr None))\<rparr>"

definition initial_state :: server_state where
  "initial_state = \<lparr>console = [], supabaseAdminClient = None\<rparr>"

text \<open>The request of scenario A, and the same request with no output type.\<close>

definition scenario_A :: json where
  "scenario_A =
     JObject [(''sourceType'', JString ''text''),
              (''source'', JString ''Some article body.''),
              (''outputTypes'', JArray [JString ''newsletter'']),
              (''canonicalUrl'', JString ''https://example.com/post'')]"

definition scenario_C :: json where
  "scenario_C =
     JObject [(''sourceType'', JString ''text''),
              (''source'', JString ''Some article body.''),
              (''outputTypes'', JArray []),
              (''canonicalUrl'', JString ''https://example.com/post'')]"

definition scenario_A_metadata :: BlogMetadata where
  "scenario_A_metadata =
     \<lparr>title = None, author = None, canonicalUrl = ''https://example.com/post'',
      wordCount = None, excerpt = None\<rparr>"

text \<open>The same world with a model that answers every prompt with the empty text.\<close>

definition world_empty_answer :: world where
  "world_empty_answer = example_world\<lparr>generateContent := (\<lambda>k m n p. Inr [])\<rparr>"

text \<open>Two worlds with Supabase configured: the project URL has no scheme, so that
  \<^verbatim>\<open>createClient\<close> throws; the insert reports an error.\<close>

definition world_bad_supabase_url :: world where
  "world_bad_supabase_url =
     example_world\<lparr>SUPABASE_URL := Some ''your-project.supabase.co'',
                   SUPABASE_SERVICE_ROLE_KEY := Some ''service-role-key''\<rparr>"

definition world_insert_reports :: world where
  "world_insert_reports =
     example_world\<lparr>SUPABASE_URL := Some ''https://your-project.supabase.co'',
                   SUPABASE_SERVICE_ROLE_KEY := Some ''service-role-key'',
                   createClient := (\<lambda>u k. Inr (\<lambda>row. Inr (Some ''permission denied'')))\<rparr>"

text \<open>A document with at most one element for each of the three selectors of
  \<^verbatim>\<open>getCanonical\<close>.\<close>

definition doc_of :: "element option \<Rightarrow> element option \<Rightarrow> element option \<Rightarrow> document" where
  "doc_of linkEl ogEl twitterEl =
     \<lparr>querySelector =
        (\<lambda>sel. if sel = ''link[rel='canonical']'' then linkEl
               else if sel = ''meta[property='og:url']'' then ogEl
               else if sel = ''meta[name='twitter:url']'' then twitterEl
               else None),
      doc_title = ''A page'',
      body_textContent = Some ''Some text''\<rparr>"

definition link_el :: "string \<Rightarrow> element" where
  "link_el h = \<lparr>elem_href = h, elem_attributes = [(''rel'', ''canonical''), (''href'', h)]\<rparr>"

definition meta_el :: "string \<Rightarrow> string \<Rightarrow> string \<Rightarrow> element" where
  "meta_el k n c = \<lparr>elem_href = [], elem_attributes = [(k, n), (''content'', c)]\<rparr>"

text \<open>The parsed request of scenario A.\<close>

definition scenario_A_parsed :: ConvertRequestPayload where
  "scenario_A_parsed =
     \<lparr>sourceType = SourceText, source = ''Some article body.'', outputTypes = [Newsletter],
      socialPlatforms = None, tone = None,
      reqCanonicalUrl = Some ''https://example.com/post'',
      articleTitle = None, articleAuthor = None\<rparr>"

text \<open>A world without the Gemini key, a world whose model throws, and a request for a URL
  source with its parsed form.\<close>

definition world_no_key :: world where
  "world_no_key = example_world\<lparr>GEMINI_API_KEY := None\<rparr>"

definition world_model_fails :: world where
  "world_model_fails =
     example_world\<lparr>generateContent := (\<lambda>k m n p. Inl (Error ''The model is overloaded.''))\<rparr>"

definition url_request :: json where
  "url_request =
     JObject [(''sourceType'', JString ''url''),
              (''source'', JString ''https://example.com/post''),
              (''outputTypes'', JArray [JString ''newsletter''])]"

definition url_request_parsed :: ConvertRequestPayload where
  "url_request_parsed =
     \<lparr>sourceType = SourceUrl, source = ''https://example.com/post'', outputTypes = [Newsletter],
      socialPlatforms = None, tone = None, reqCanonicalUrl = None,
      articleTitle = None, articleAuthor = None\<rparr>"


section \<open>Facts about strings\<close>

lemma str_includes_sublist: "str_includes s t = sublist t s"
  by (induction s) (auto simp: sublist_Cons_right)

lemma str_includes_iff: "str_includes s t \<longleftrightarrow> (\<exists>p q. s = p @ t @ q)"
  by (simp add: str_includes_sublist sublist_def)

lemma str_includes_set: "str_includes s t \<Longrightarrow> set t \<subseteq> set s"
  by (auto simp: str_includes_iff)

lemma str_includes_middle: "str_includes (a @ t @ b) t"
  unfolding str_includes_iff by blast

lemma str_includes_nonempty: "str_includes s t \<Longrightarrow> t \<noteq> [] \<Longrightarrow> s \<noteq> []"
  by (cases s) auto

section \<open>Sanitising the model's text\<close>


text \<open>
  C4. If the cleaned output is not empty and does not contain the tracked URL, the result
  is the cleaned output followed by one paragraph that links to exactly that URL; if the
  cleaned output contains the (non-empty) URL, the result is the cleaned output alone.
\<close>

theorem sanitize_backlink_guarantee:
  \<open>(cleaned_output output \<noteq> [] \<and> \<not> str_includes (cleaned_output output) url \<longrightarrow>
      sanitizeModelHtml output url =
        cleaned_output output @ ''\<newline><p><a href="'' @ url @ ''">Read the full article</a></p>'') \<and>
    (url \<noteq> [] \<and> str_includes (cleaned_output output) url \<longrightarrow>
      sanitizeModelHtml output url = cleaned_output output)\<close>
proof (intro conjI impI)
  assume "cleaned_output output \<noteq> [] \<and> \<not> str_includes (cleaned_output output) url"
  then show \<open>sanitizeModelHtml output url =
        cleaned_output output @ ''\<newline><p><a href="'' @ url @ ''">Read the full article</a></p>''\<close>
    by (simp add: sanitizeModelHtml_def Let_def)
next
  assume h: "url \<noteq> [] \<and> str_includes (cleaned_output output) url"
  then have "cleaned_output output \<noteq> []"
    using str_includes_nonempty by blast
  with h show "sanitizeModelHtml output url = cleaned_output output"
    by (simp add: sanitizeModelHtml_def Let_def)
qed

theorem sanitize_backlink_guarantee_witness:
  \<open>sanitizeModelHtml ''<p>hi</p>'' ''https://example.com/post?utm_medium=email'' =
      ''<p>hi</p>\<newline><p><a href="https://example.com/post?utm_medium=email">Read the full article</a></p>'' \<and>
    sanitizeModelHtml ''```<p>at https://example.com/post?utm_medium=email</p>''
        ''https://example.com/post?utm_medium=email'' =
      ''<p>at https://example.com/post?utm_medium=email</p>''\<close>
proof -
  have c1: "cleaned_output ''<p>hi</p>'' = ''<p>hi</p>''"
    by code_simp
  have c2: "cleaned_output ''```<p>at https://example.com/post?utm_medium=email</p>'' =
      ''<p>at https://example.com/post?utm_medium=email</p>''"
    by code_simp
  have n1: "\<not> str_includes ''<p>hi</p>'' ''https://example.com/post?utm_medium=email''"
    by simp
  have n2: "str_includes ''<p>at https://example.com/post?utm_medium=email</p>''
      ''https://example.com/post?utm_medium=email''"
    by simp
  show ?thesis
    using sanitize_backlink_guarantee [of "''<p>hi</p>''" "''https://example.com/post?utm_medium=email''"]
      sanitize_backlink_guarantee [of "''```<p>at https://example.com/post?utm_medium=email</p>''"
        "''https://example.com/post?utm_medium=email''"]
    unfolding c1 c2 using n1 n2 by simp
qed

subsection \<open>Texts with an empty cleaned form\<close>

lemma ascii_upper_cases:
  "ascii_upper c = c \<or> ascii_upper c \<in> set ''ABCDEFGHIJKLMNOPQRSTUVWXYZ''"
proof (cases "map_of (zip ''abcdefghijklmnopqrstuvwxyz'' ''ABCDEFGHIJKLMNOPQRSTUVWXYZ'') c")
  case None
  then show ?thesis
    unfolding ascii_upper_def by simp
next
  case (Some u)
  then have "(c, u) \<in> set (zip ''abcdefghijklmnopqrstuvwxyz'' ''ABCDEFGHIJKLMNOPQRSTUVWXYZ'')"
    by (rule map_of_SomeD)
  then have "u \<in> set ''ABCDEFGHIJKLMNOPQRSTUVWXYZ''"
    by (rule set_zip_rightD)
  with Some show ?thesis
    unfolding ascii_upper_def by simp
qed

lemma ascii_upper_tick: "ascii_upper c = CHR 0x60 \<Longrightarrow> c = CHR 0x60"
  using ascii_upper_cases [of c] by auto

lemma fence_html_token_shape:
  assumes "fence_html_token t"
  shows "\<exists>h k m l. t = [CHR 0x60, CHR 0x60, CHR 0x60, h, k, m, l] \<and>
           ascii_upper h = CHR ''H'' \<and> ascii_upper k = CHR ''T'' \<and>
           ascii_upper m = CHR ''M'' \<and> ascii_upper l = CHR ''L''"
proof -
  from assms have "length t = Suc (Suc (Suc (Suc (Suc (Suc (Suc 0))))))"
    by (simp add: fence_html_token_def)
  then obtain a b c h k m l where t: "t = [a, b, c, h, k, m, l]"
    by (auto simp: length_Suc_conv)
  with assms have "ascii_upper a = CHR 0x60" "ascii_upper b = CHR 0x60" "ascii_upper c = CHR 0x60"
    and rest: "ascii_upper h = CHR ''H''" "ascii_upper k = CHR ''T''" "ascii_upper m = CHR ''M''"
    "ascii_upper l = CHR ''L''"
    by (simp_all add: fence_html_token_def toUpperCase_def)
  then have "a = CHR 0x60" "b = CHR 0x60" "c = CHR 0x60"
    by (simp_all add: ascii_upper_tick)
  with t rest show ?thesis
    by simp
qed


lemma remove_fence_html_other:
  "c \<noteq> CHR 0x60 \<Longrightarrow> remove_all True ''```html'' (c # s) = c # remove_all True ''```html'' s"
  using ascii_upper_tick [of c]
  by (cases s) (auto simp: matches_at_def ascii_upper_def)

lemma remove_fence_html_no_tick:
  "CHR 0x60 \<notin> set w \<Longrightarrow> remove_all True ''```html'' (w @ r) = w @ remove_all True ''```html'' r"
proof (induction w)
  case Nil
  then show ?case by simp
next
  case (Cons c w)
  then have "c \<noteq> CHR 0x60" by auto
  then have "remove_all True ''```html'' (c # w @ r) = c # remove_all True ''```html'' (w @ r)"
    by (rule remove_fence_html_other)
  with Cons show ?case by simp
qed

lemma remove_fence_html_token:
  assumes "fence_html_token t"
  shows "remove_all True ''```html'' (t @ r) = remove_all True ''```html'' r"
proof -
  from fence_html_token_shape [OF assms] obtain h k m l
    where t: "t = [CHR 0x60, CHR 0x60, CHR 0x60, h, k, m, l]"
      and u: "ascii_upper h = CHR ''H''" "ascii_upper k = CHR ''T''"
        "ascii_upper m = CHR ''M''" "ascii_upper l = CHR ''L''"
    by blast
  have up: "map ascii_upper ''```html'' = ''```HTML''"
    by (simp add: ascii_upper_def)
  have tick: "ascii_upper CHR 0x60 = CHR 0x60"
    by (simp add: ascii_upper_def)
  have "matches_at True ''```html'' (t @ r)"
    unfolding matches_at_def up by (simp add: t u tick)
  then show ?thesis
    by (simp add: t)
qed


lemma remove_all_step:
  "\<not> matches_at ic pat (c # s) \<Longrightarrow> remove_all ic pat (c # s) = c # remove_all ic pat s"
  by simp

lemma upper_pattern_chars:
  "ascii_upper CHR 0x60 = CHR 0x60" "ascii_upper CHR ''h'' = CHR ''H''"
  "ascii_upper CHR ''t'' = CHR ''T''" "ascii_upper CHR ''m'' = CHR ''M''"
  "ascii_upper CHR ''l'' = CHR ''L''"
  by (simp_all add: ascii_upper_def)

lemma match_fence_html_heads:
  assumes "matches_at True ''```html'' (a # b # c # d # r)"
  shows "a = CHR 0x60 \<and> b = CHR 0x60 \<and> c = CHR 0x60 \<and> ascii_upper d = CHR ''H''"
proof -
  from assms have "ascii_upper a = CHR 0x60 \<and> ascii_upper b = CHR 0x60 \<and> ascii_upper c = CHR 0x60 \<and>
      ascii_upper d = CHR ''H''"
    by (simp add: matches_at_def upper_pattern_chars)
  then show ?thesis
    using ascii_upper_tick by blast
qed

lemma match_fence_html_long:
  "matches_at True ''```html'' s \<Longrightarrow> 7 \<le> length s"
  by (simp add: matches_at_def)

lemma remove_fence_html_plain_fence:
  assumes "no_html_ahead r"
  shows "remove_all True ''```html'' (''```'' @ r) = ''```'' @ remove_all True ''```html'' r"
proof -
  have n0: "\<not> matches_at True ''```html'' (CHR 0x60 # CHR 0x60 # CHR 0x60 # r)"
  proof
    assume m: "matches_at True ''```html'' (CHR 0x60 # CHR 0x60 # CHR 0x60 # r)"
    then obtain d r' where r: "r = d # r'"
      using match_fence_html_long [OF m] by (cases r) auto
    with m have "ascii_upper d = CHR ''H''"
      using match_fence_html_heads by blast
    with assms r show False
      by (auto simp: no_html_ahead_def upper_pattern_chars)
  qed
  have n1: "\<not> matches_at True ''```html'' (CHR 0x60 # CHR 0x60 # r)"
  proof
    assume m: "matches_at True ''```html'' (CHR 0x60 # CHR 0x60 # r)"
    then obtain c d r' where r: "r = c # d # r'"
      using match_fence_html_long [OF m] by (cases r; cases "tl r") auto
    with m have "c = CHR 0x60" "ascii_upper d = CHR ''H''"
      using match_fence_html_heads by blast+
    with assms r show False
      by (auto simp: no_html_ahead_def upper_pattern_chars)
  qed
  have n2: "\<not> matches_at True ''```html'' (CHR 0x60 # r)"
  proof
    assume m: "matches_at True ''```html'' (CHR 0x60 # r)"
    then obtain b c d r' where r: "r = b # c # d # r'"
      using match_fence_html_long [OF m] by (cases r; cases "tl r"; cases "tl (tl r)") auto
    with m have "b = CHR 0x60" "c = CHR 0x60" "ascii_upper d = CHR ''H''"
      using match_fence_html_heads by blast+
    with assms r show False
      by (auto simp: no_html_ahead_def upper_pattern_chars)
  qed
  show ?thesis
    by (simp only: append_Cons append_Nil remove_all_step [OF n0] remove_all_step [OF n1]
        remove_all_step [OF n2])
qed

lemma whitespace_no_tick: "w \<in> set js_whitespace \<Longrightarrow> CHR 0x60 \<notin> set w"
  by (auto simp: js_whitespace_def)

lemma whitespace_no_html_ahead: "w \<in> set js_whitespace \<Longrightarrow> no_html_ahead (w @ r)"
  by (auto simp: js_whitespace_def no_html_ahead_def ascii_upper_def)

lemma filler_no_html_ahead:
  assumes "\<forall>t \<in> set ts. filler_token t"
  shows "no_html_ahead (concat ts)"
proof (cases ts)
  case Nil
  then show ?thesis by (simp add: no_html_ahead_def)
next
  case (Cons t ts')
  with assms have "filler_token t" by simp
  then consider "fence_html_token t" | "t = ''```''" | "t = zero_width_space" | "t \<in> set js_whitespace"
    unfolding filler_token_def by blast
  then show ?thesis
  proof cases
    case 1
    then show ?thesis
      using fence_html_token_shape [of t] by (auto simp: Cons no_html_ahead_def)
  next
    case 2
    then show ?thesis by (simp add: Cons no_html_ahead_def)
  next
    case 3
    then show ?thesis
      by (simp add: Cons no_html_ahead_def zero_width_space_def ascii_upper_def)
  next
    case 4
    then show ?thesis
      by (simp add: Cons whitespace_no_html_ahead)
  qed
qed

lemma not_fence_html:
  "\<not> fence_html_token ''```''" "\<not> fence_html_token zero_width_space"
  "w \<in> set js_whitespace \<Longrightarrow> \<not> fence_html_token w"
  by (auto simp: fence_html_token_def zero_width_space_def js_whitespace_def)

lemma remove_fence_html_fillers:
  assumes "\<forall>t \<in> set ts. filler_token t"
  shows "remove_all True ''```html'' (concat ts) = concat (filter (\<lambda>t. \<not> fence_html_token t) ts)"
  using assms
proof (induction ts)
  case Nil
  then show ?case by simp
next
  case (Cons t ts)
  then have ih: "remove_all True ''```html'' (concat ts) =
      concat (filter (\<lambda>t. \<not> fence_html_token t) ts)"
    by simp
  from Cons.prems have "filler_token t" by simp
  then consider "fence_html_token t" | "t = ''```''" | "t = zero_width_space" | "t \<in> set js_whitespace"
    unfolding filler_token_def by blast
  then show ?case
  proof cases
    case 1
    then show ?thesis
      using remove_fence_html_token [of t "concat ts"] ih by (simp del: remove_all.simps)
  next
    case 2
    have "no_html_ahead (concat ts)"
      using Cons.prems by (intro filler_no_html_ahead) simp
    then show ?thesis
      using remove_fence_html_plain_fence [of "concat ts"] ih 2 not_fence_html(1)
      by (simp del: remove_all.simps)
  next
    case 3
    have "CHR 0x60 \<notin> set zero_width_space"
      by (simp add: zero_width_space_def)
    then show ?thesis
      using remove_fence_html_no_tick [of zero_width_space "concat ts"] ih 3 not_fence_html(2)
      by (simp del: remove_all.simps)
  next
    case 4
    then show ?thesis
      using remove_fence_html_no_tick [of t "concat ts"] ih whitespace_no_tick not_fence_html(3)
      by (simp del: remove_all.simps)
  qed
qed

lemma remove_fence_no_tick:
  "CHR 0x60 \<notin> set w \<Longrightarrow> remove_all False ''```'' (w @ r) = w @ remove_all False ''```'' r"
proof (induction w)
  case Nil
  then show ?case by simp
next
  case (Cons c w)
  then have "\<not> matches_at False ''```'' (c # w @ r)"
    by (auto simp: matches_at_def)
  then have "remove_all False ''```'' (c # w @ r) = c # remove_all False ''```'' (w @ r)"
    by (rule remove_all_step)
  with Cons show ?case by simp
qed

lemma remove_fence_plain_fence:
  "remove_all False ''```'' (''```'' @ r) = remove_all False ''```'' r"
  by (simp add: matches_at_def)

lemma remove_fence_fillers:
  assumes "\<forall>t \<in> set ts. t = ''```'' \<or> t = zero_width_space \<or> t \<in> set js_whitespace"
  shows "remove_all False ''```'' (concat ts) = concat (filter (\<lambda>t. t \<noteq> ''```'') ts)"
  using assms
proof (induction ts)
  case Nil
  then show ?case by simp
next
  case (Cons t ts)
  from Cons.prems have rest: "\<forall>t \<in> set ts. t = ''```'' \<or> t = zero_width_space \<or> t \<in> set js_whitespace"
    by simp
  have ih: "remove_all False ''```'' (concat ts) = concat (filter (\<lambda>t. t \<noteq> ''```'') ts)"
    using rest by (rule Cons.IH)
  from Cons.prems have kinds: "t = ''```'' \<or> t = zero_width_space \<or> t \<in> set js_whitespace"
    by simp
  show ?case
  proof (cases "t = ''```''")
    case True
    have "remove_all False ''```'' (concat (t # ts)) = remove_all False ''```'' (''```'' @ concat ts)"
      unfolding True by simp
    also have "\<dots> = remove_all False ''```'' (concat ts)"
      by (rule remove_fence_plain_fence)
    also have "\<dots> = concat (filter (\<lambda>t. t \<noteq> ''```'') (t # ts))"
      unfolding ih True by simp
    finally show ?thesis .
  next
    case False
    have "CHR 0x60 \<notin> set t"
    proof (cases "t = zero_width_space")
      case True
      then show ?thesis by (simp add: zero_width_space_def)
    next
      case nz: False
      with False kinds have "t \<in> set js_whitespace" by blast
      then show ?thesis by (rule whitespace_no_tick)
    qed
    then have "remove_all False ''```'' (t @ concat ts) = t @ remove_all False ''```'' (concat ts)"
      by (rule remove_fence_no_tick)
    then have "remove_all False ''```'' (concat (t # ts)) = t @ concat (filter (\<lambda>t. t \<noteq> ''```'') ts)"
      unfolding ih by simp
    with False show ?thesis by simp
  qed
qed


lemma remove_zero_width_whitespace:
  "w \<in> set js_whitespace \<Longrightarrow>
     remove_all False zero_width_space (w @ r) = w @ remove_all False zero_width_space r"
  by (auto simp: js_whitespace_def zero_width_space_def matches_at_def)

lemma remove_zero_width_itself:
  "remove_all False zero_width_space (zero_width_space @ r) = remove_all False zero_width_space r"
  by (simp add: zero_width_space_def matches_at_def)

lemma remove_zero_width_fillers:
  assumes "\<forall>t \<in> set ts. t = zero_width_space \<or> t \<in> set js_whitespace"
  shows "remove_all False zero_width_space (concat ts) =
           concat (filter (\<lambda>t. t \<noteq> zero_width_space) ts)"
  using assms
proof (induction ts)
  case Nil
  then show ?case by simp
next
  case (Cons t ts)
  from Cons.prems have rest: "\<forall>t \<in> set ts. t = zero_width_space \<or> t \<in> set js_whitespace"
    by simp
  have ih: "remove_all False zero_width_space (concat ts) =
      concat (filter (\<lambda>t. t \<noteq> zero_width_space) ts)"
    using rest by (rule Cons.IH)
  from Cons.prems have kinds: "t = zero_width_space \<or> t \<in> set js_whitespace"
    by simp
  show ?case
  proof (cases "t = zero_width_space")
    case True
    have "remove_all False zero_width_space (concat (t # ts)) =
        remove_all False zero_width_space (zero_width_space @ concat ts)"
      unfolding True by simp
    also have "\<dots> = remove_all False zero_width_space (concat ts)"
      by (rule remove_zero_width_itself)
    also have "\<dots> = concat (filter (\<lambda>t. t \<noteq> zero_width_space) (t # ts))"
      unfolding ih True by simp
    finally show ?thesis .
  next
    case False
    with kinds have "t \<in> set js_whitespace" by blast
    then have "remove_all False zero_width_space (t @ concat ts) =
        t @ remove_all False zero_width_space (concat ts)"
      by (rule remove_zero_width_whitespace)
    then have "remove_all False zero_width_space (concat (t # ts)) =
        t @ concat (filter (\<lambda>t. t \<noteq> zero_width_space) ts)"
      unfolding ih by simp
    with False show ?thesis by simp
  qed
qed

lemma strip_leading_whitespace:
  "w \<in> set js_whitespace \<Longrightarrow>
     strip_leading js_whitespace (w @ r) = strip_leading js_whitespace r"
  by (auto simp: js_whitespace_def)

lemma strip_leading_all_whitespace:
  "\<forall>t \<in> set ts. t \<in> set js_whitespace \<Longrightarrow> strip_leading js_whitespace (concat ts) = []"
proof (induction ts)
  case Nil
  then show ?case by simp
next
  case (Cons t ts)
  then have "t \<in> set js_whitespace" and ih: "strip_leading js_whitespace (concat ts) = []"
    by simp_all
  then have "strip_leading js_whitespace (t @ concat ts) = strip_leading js_whitespace (concat ts)"
    using strip_leading_whitespace by blast
  with ih have "strip_leading js_whitespace (t @ concat ts) = []"
    by (simp only:)
  then show ?case
    by (simp only: concat.simps)
qed

text \<open>A text that consists of fence markers (\<^verbatim>\<open>```html\<close> in any case, \<^verbatim>\<open>```\<close>), zero-width
  spaces and white space has an empty cleaned form.\<close>

lemma cleaned_output_fillers:
  assumes "\<forall>t \<in> set ts. filler_token t"
  shows "cleaned_output (concat ts) = []"
proof -
  let ?ts1 = "filter (\<lambda>t. \<not> fence_html_token t) ts"
  let ?ts2 = "filter (\<lambda>t. t \<noteq> ''```'') ?ts1"
  let ?ts3 = "filter (\<lambda>t. t \<noteq> zero_width_space) ?ts2"
  have 1: "remove_all True ''```html'' (concat ts) = concat ?ts1"
    using assms by (rule remove_fence_html_fillers)
  have "\<forall>t \<in> set ?ts1. t = ''```'' \<or> t = zero_width_space \<or> t \<in> set js_whitespace"
    using assms unfolding filler_token_def by auto
  then have 2: "remove_all False ''```'' (concat ?ts1) = concat ?ts2"
    by (rule remove_fence_fillers)
  have "\<forall>t \<in> set ?ts2. t = zero_width_space \<or> t \<in> set js_whitespace"
    using assms unfolding filler_token_def by auto
  then have 3: "remove_all False zero_width_space (concat ?ts2) = concat ?ts3"
    by (rule remove_zero_width_fillers)
  have "\<forall>t \<in> set ?ts3. t \<in> set js_whitespace"
    using assms unfolding filler_token_def by auto
  then have 4: "strip_leading js_whitespace (concat ?ts3) = []"
    by (rule strip_leading_all_whitespace)
  have "cleaned_output (concat ts) =
      trim (remove_all False zero_width_space
             (remove_all False ''```'' (remove_all True ''```html'' (concat ts))))"
    by (simp only: cleaned_output_def zero_width_space_def)
  also have "\<dots> = trim (concat ?ts3)"
    by (simp only: 1 2 3)
  also have "\<dots> = []"
    unfolding trim_def 4 by simp
  finally show ?thesis .
qed

text \<open>
  C9. When the cleaned output is empty the result is the fixed placeholder, which does not
  contain the tracked URL (a serialised URL contains a colon, the placeholder does not);
  in every other case the result contains the URL.
\<close>

theorem sanitize_empty_placeholder:
  assumes "CHR '':'' \<in> set url"
  shows "(cleaned_output output = [] \<longrightarrow>
            sanitizeModelHtml output url = placeholder \<and>
            \<not> str_includes (sanitizeModelHtml output url) url) \<and>
         (cleaned_output output \<noteq> [] \<longrightarrow> str_includes (sanitizeModelHtml output url) url) \<and>
         ((\<forall>t \<in> set ts. filler_token t) \<longrightarrow> cleaned_output (concat ts) = [])"
proof (intro conjI impI)
  assume e: "cleaned_output output = []"
  then show p: "sanitizeModelHtml output url = placeholder"
    by (simp add: sanitizeModelHtml_def)
  have "CHR '':'' \<notin> set placeholder"
    by (simp add: placeholder_def)
  with assms have "\<not> set url \<subseteq> set placeholder"
    by blast
  then show "\<not> str_includes (sanitizeModelHtml output url) url"
    unfolding p using str_includes_set by blast
next
  assume ne: "cleaned_output output \<noteq> []"
  show "str_includes (sanitizeModelHtml output url) url"
  proof (cases "str_includes (cleaned_output output) url")
    case True
    with ne show ?thesis
      by (simp add: sanitizeModelHtml_def Let_def)
  next
    case False
    with ne have \<open>sanitizeModelHtml output url =
        (cleaned_output output @ ''\<newline><p><a href="'') @ url @ ''">Read the full article</a></p>''\<close>
      by (simp add: sanitizeModelHtml_def Let_def)
    then show ?thesis
      using str_includes_middle by metis
  qed
next
  assume "\<forall>t \<in> set ts. filler_token t"
  then show "cleaned_output (concat ts) = []"
    by (rule cleaned_output_fillers)
qed

theorem sanitize_empty_placeholder_witness:
  \<open>cleaned_output (concat [zero_width_space, '' '', ''```HTML'', ''\<newline>'', ''```'', '' '']) = [] \<and>
    sanitizeModelHtml (concat [zero_width_space, '' '', ''```HTML'', ''\<newline>'', ''```'', '' ''])
      ''https://example.com/post?utm_medium=email'' =
      ''<p>We weren't able to generate this output. Please try again.</p>'' \<and>
    \<not> str_includes
        (sanitizeModelHtml (concat [zero_width_space, '' '', ''```HTML'', ''\<newline>'', ''```'', '' ''])
          ''https://example.com/post?utm_medium=email'')
        ''https://example.com/post?utm_medium=email'' \<and>
    str_includes (sanitizeModelHtml ''<p>hi</p>'' ''https://example.com/post?utm_medium=email'')
      ''https://example.com/post?utm_medium=email''\<close>
proof -
  let ?ts = "[zero_width_space, '' '', ''```HTML'', ''\<newline>'', ''```'', '' '']"
  have h: "CHR '':'' \<in> set ''https://example.com/post?utm_medium=email''"
    by simp
  have f: "\<forall>t \<in> set ?ts. filler_token t"
    by (simp add: filler_token_def fence_html_token_def toUpperCase_def ascii_upper_def
        js_whitespace_def)
  have c2: "cleaned_output ''<p>hi</p>'' \<noteq> []"
    by code_simp
  note T = sanitize_empty_placeholder [OF h]
  have c1: "cleaned_output (concat ?ts) = []"
    using T [where ts = ?ts] f by blast
  show ?thesis
    using T [of "concat ?ts"] T [of "''<p>hi</p>''"] c1 c2
    by (simp add: placeholder_def)
qed

subsection \<open>Texts with code fences\<close>














section \<open>Link tracking\<close>

lemma set_first_filter_other:
  assumes "\<And>p. fst p = name \<Longrightarrow> \<not> P p"
  shows "filter P (set_first name v l) = filter P l"
proof (induction l)
  case Nil
  then show ?case by simp
next
  case (Cons p l)
  have "filter P (filter (\<lambda>q. fst q \<noteq> name) l) = filter P l"
    using assms by (induction l) auto
  with Cons assms show ?case by auto
qed

lemma searchParams_set_filter_other:
  assumes "\<And>p. fst p = name \<Longrightarrow> \<not> P p"
  shows "filter P (searchParams_set name v l) = filter P l"
  using assms set_first_filter_other [of name P v l]
  by (auto simp: searchParams_set_def)

lemma set_first_filter_same:
  "name \<in> fst ` set l \<Longrightarrow> filter (\<lambda>p. fst p = name) (set_first name v l) = [(name, v)]"
proof (induction l)
  case Nil
  then show ?case by simp
next
  case (Cons p l)
  have "filter (\<lambda>p. fst p = name) (filter (\<lambda>q. fst q \<noteq> name) l) = []"
    by (induction l) auto
  with Cons show ?case by auto
qed

lemma searchParams_set_filter_same:
  "filter (\<lambda>p. fst p = name) (searchParams_set name v l) = [(name, v)]"
proof (cases "name \<in> fst ` set l")
  case True
  then show ?thesis
    by (simp add: searchParams_set_def set_first_filter_same)
next
  case False
  then have "filter (\<lambda>p. fst p = name) l = []"
    by (induction l) auto
  with False show ?thesis
    by (simp add: searchParams_set_def)
qed

lemma set_first_idem:
  "filter (\<lambda>p. fst p = name) l = [(name, v)] \<Longrightarrow> set_first name v l = l"
proof (induction l)
  case Nil
  then show ?case by simp
next
  case (Cons p l)
  show ?case
  proof (cases "fst p = name")
    case True
    with Cons.prems have p: "p = (name, v)" and rest: "filter (\<lambda>p. fst p = name) l = []"
      by auto
    from rest have "filter (\<lambda>q. fst q \<noteq> name) l = l"
      by (induction l) (auto split: if_splits)
    with True p show ?thesis by simp
  next
    case False
    with Cons show ?thesis by simp
  qed
qed

lemma searchParams_set_idem:
  assumes "filter (\<lambda>p. fst p = name) l = [(name, v)]"
  shows "searchParams_set name v l = l"
proof -
  have "(name, v) \<in> set (filter (\<lambda>p. fst p = name) l)"
    using assms by simp
  then have "name \<in> fst ` set l"
    by force
  with assms show ?thesis
    by (simp add: searchParams_set_def set_first_idem)
qed

lemma trackedParams_None:
  "trackedParams l m None =
     searchParams_set ''utm_campaign'' UTM_CAMPAIGN
       (searchParams_set ''utm_medium'' (OutputType_str m)
         (searchParams_set ''utm_source'' UTM_SOURCE l))"
  by (simp add: trackedParams_def)

lemma trackedParams_source:
  "filter (\<lambda>p. fst p = ''utm_source'') (trackedParams l m None) = [(''utm_source'', UTM_SOURCE)]"
  unfolding trackedParams_None
  by (simp add: searchParams_set_filter_other searchParams_set_filter_same)

lemma trackedParams_medium:
  "filter (\<lambda>p. fst p = ''utm_medium'') (trackedParams l m None) =
     [(''utm_medium'', OutputType_str m)]"
  unfolding trackedParams_None
  by (simp add: searchParams_set_filter_other searchParams_set_filter_same)

lemma trackedParams_campaign:
  "filter (\<lambda>p. fst p = ''utm_campaign'') (trackedParams l m None) =
     [(''utm_campaign'', UTM_CAMPAIGN)]"
  unfolding trackedParams_None
  by (simp add: searchParams_set_filter_same)

lemma trackedParams_idem:
  "trackedParams (trackedParams l m None) m None = trackedParams l m None"
proof -
  let ?t = "trackedParams l m None"
  have 1: "searchParams_set ''utm_source'' UTM_SOURCE ?t = ?t"
    by (rule searchParams_set_idem) (rule trackedParams_source)
  have 2: "searchParams_set ''utm_medium'' (OutputType_str m) ?t = ?t"
    by (rule searchParams_set_idem) (rule trackedParams_medium)
  have 3: "searchParams_set ''utm_campaign'' UTM_CAMPAIGN ?t = ?t"
    by (rule searchParams_set_idem) (rule trackedParams_campaign)
  show ?thesis
    unfolding trackedParams_None [of ?t] 1 2 3 ..
qed

lemma searchParams_update_query:
  assumes "urlencoded_parse A (urlencoded_serialize A l) = l"
  shows "searchParams A (update_query A l u) = l"
proof (cases "urlencoded_serialize A l = []")
  case True
  with assms have "urlencoded_parse A [] = l" by simp
  with True show ?thesis
    by (simp add: searchParams_def update_query_def)
next
  case False
  with assms show ?thesis
    by (simp add: searchParams_def update_query_def)
qed

lemma update_query_twice: "update_query A l (update_query A l u) = update_query A l u"
  by (simp add: update_query_def)

lemma foldl_set_filter_other:
  assumes "\<And>p. fst p \<in> fst ` set entries \<Longrightarrow> \<not> P p"
  shows "filter P (foldl (\<lambda>acc kv. searchParams_set (fst kv) (snd kv) acc) l entries) = filter P l"
  using assms
proof (induction entries arbitrary: l)
  case Nil
  then show ?case by simp
next
  case (Cons e entries)
  have "filter P (foldl (\<lambda>acc kv. searchParams_set (fst kv) (snd kv) acc)
                    (searchParams_set (fst e) (snd e) l) entries) =
        filter P (searchParams_set (fst e) (snd e) l)"
    using Cons by simp
  also have "\<dots> = filter P l"
    using Cons.prems by (intro searchParams_set_filter_other) simp
  finally show ?case by simp
qed

lemma trackedParams_filter_other:
  "filter (\<lambda>p. fst p \<notin> tracked_keys ov) (trackedParams l m ov) =
   filter (\<lambda>p. fst p \<notin> tracked_keys ov) l"
proof -
  let ?P = "\<lambda>p :: string \<times> string. fst p \<notin> tracked_keys ov"
  let ?l3 = "trackedParams l m None"
  have l3: "filter ?P ?l3 = filter ?P l"
    unfolding trackedParams_None
    by (simp add: searchParams_set_filter_other tracked_keys_def)
  show ?thesis
  proof (cases ov)
    case None
    with l3 show ?thesis by simp
  next
    case (Some entries)
    have "trackedParams l m ov =
        foldl (\<lambda>acc kv. searchParams_set (fst kv) (snd kv) acc) ?l3 entries"
      by (simp add: Some trackedParams_def)
    moreover have "filter ?P (foldl (\<lambda>acc kv. searchParams_set (fst kv) (snd kv) acc) ?l3 entries) =
        filter ?P ?l3"
      by (rule foldl_set_filter_other) (simp add: tracked_keys_def Some)
    ultimately show ?thesis
      using l3 by simp
  qed
qed


text \<open>
  C2. Tracking a tracked URL again, for the same channel, gives the same URL: each of
  \<^verbatim>\<open>utm_source\<close>, \<^verbatim>\<open>utm_medium\<close> and \<^verbatim>\<open>utm_campaign\<close> occurs exactly once in it, with the
  value of a single application. The platform is asked for two things: parsing the
  serialised tracked URL gives that URL back, and so does parsing its serialised query.
\<close>

theorem tracking_idempotent:
  assumes parse: "new_URL A h None = Inr u"
    and url_round_trip:
      "new_URL A (URL_toString A (trackedUrl A u c None)) None = Inr (trackedUrl A u c None)"
    and query_round_trip:
      "urlencoded_parse A (urlencoded_serialize A (trackedParams (searchParams A u) c None)) =
         trackedParams (searchParams A u) c None"
  shows "\<exists>s1 s2 u2.
           buildTrackedUrl A h c None = Inr s1 \<and>
           buildTrackedUrl A s1 c None = Inr s2 \<and>
           s2 = s1 \<and>
           new_URL A s2 None = Inr u2 \<and>
           filter (\<lambda>p. fst p = ''utm_source'') (searchParams A u2) = [(''utm_source'', ''blog2buzz'')] \<and>
           filter (\<lambda>p. fst p = ''utm_medium'') (searchParams A u2) =
             [(''utm_medium'', OutputType_str c)] \<and>
           filter (\<lambda>p. fst p = ''utm_campaign'') (searchParams A u2) =
             [(''utm_campaign'', ''content-repurpose'')]"
proof -
  let ?l1 = "trackedParams (searchParams A u) c None"
  let ?u1 = "trackedUrl A u c None"
  let ?s1 = "URL_toString A ?u1"
  have s1: "buildTrackedUrl A h c None = Inr ?s1"
    by (simp add: buildTrackedUrl_def parse)
  have params: "searchParams A ?u1 = ?l1"
    unfolding trackedUrl_def by (rule searchParams_update_query) (rule query_round_trip)
  have "trackedUrl A ?u1 c None = update_query A (trackedParams ?l1 c None) ?u1"
    by (simp add: trackedUrl_def [of A ?u1] params)
  also have "\<dots> = update_query A ?l1 (update_query A ?l1 u)"
    by (simp add: trackedParams_idem trackedUrl_def)
  also have "\<dots> = ?u1"
    by (simp add: update_query_twice trackedUrl_def)
  finally have again: "trackedUrl A ?u1 c None = ?u1" .
  have s2: "buildTrackedUrl A ?s1 c None = Inr ?s1"
    by (simp add: buildTrackedUrl_def url_round_trip again)
  show ?thesis
    using s1 s2 url_round_trip params
      trackedParams_source [of "searchParams A u" c]
      trackedParams_medium [of "searchParams A u" c]
      trackedParams_campaign [of "searchParams A u" c]
    by (simp add: UTM_SOURCE_def UTM_CAMPAIGN_def)
qed

theorem tracking_idempotent_witness:
  "buildTrackedUrl plain_url_api ''https://example.com/post?utm_source=x&a=1&utm_source=y#top'' Email None =
     Inr ''https://example.com/post?utm_source=blog2buzz&a=1&utm_medium=email&utm_campaign=content-repurpose#top'' \<and>
   buildTrackedUrl plain_url_api
     ''https://example.com/post?utm_source=blog2buzz&a=1&utm_medium=email&utm_campaign=content-repurpose#top''
     Email None =
     Inr ''https://example.com/post?utm_source=blog2buzz&a=1&utm_medium=email&utm_campaign=content-repurpose#top''"
proof -
  let ?h = "''https://example.com/post?utm_source=x&a=1&utm_source=y#top''"
  let ?u = "\<lparr>scheme = ''https'', username = [], password = [], host = Some ''example.com'',
             port = None, path = ''/post'', query = Some ''utm_source=x&a=1&utm_source=y'',
             fragment = Some ''top''\<rparr>"
  have parse: "new_URL plain_url_api ?h None = Inr ?u"
    by code_simp
  have rt: "new_URL plain_url_api (URL_toString plain_url_api (trackedUrl plain_url_api ?u Email None)) None =
      Inr (trackedUrl plain_url_api ?u Email None)"
    by code_simp
  have qrt: "urlencoded_parse plain_url_api
        (urlencoded_serialize plain_url_api (trackedParams (searchParams plain_url_api ?u) Email None)) =
      trackedParams (searchParams plain_url_api ?u) Email None"
    by code_simp
  have s1: "buildTrackedUrl plain_url_api ?h Email None =
      Inr ''https://example.com/post?utm_source=blog2buzz&a=1&utm_medium=email&utm_campaign=content-repurpose#top''"
    by code_simp
  from tracking_idempotent [OF parse rt qrt] s1 show ?thesis
    by auto
qed

text \<open>
  C10. The tracked URL differs from the input URL in its query only, and there only in the
  pairs of the three UTM keys and of the override keys: all other pairs are kept, with
  their values, order and multiplicity. The platform is asked for the same two round trips
  as above.
\<close>

theorem tracking_changes_query_only:
  assumes parse: "new_URL A h None = Inr u"
    and url_round_trip:
      "new_URL A (URL_toString A (trackedUrl A u m ov)) None = Inr (trackedUrl A u m ov)"
    and query_round_trip:
      "urlencoded_parse A (urlencoded_serialize A (trackedParams (searchParams A u) m ov)) =
         trackedParams (searchParams A u) m ov"
  shows "\<exists>out u'.
           buildTrackedUrl A h m ov = Inr out \<and>
           new_URL A out None = Inr u' \<and>
           scheme u' = scheme u \<and> username u' = username u \<and> password u' = password u \<and>
           host u' = host u \<and> port u' = port u \<and> path u' = path u \<and>
           fragment u' = fragment u \<and>
           filter (\<lambda>p. fst p \<notin> tracked_keys ov) (searchParams A u') =
             filter (\<lambda>p. fst p \<notin> tracked_keys ov) (searchParams A u)"
proof -
  let ?u' = "trackedUrl A u m ov"
  have out: "buildTrackedUrl A h m ov = Inr (URL_toString A ?u')"
    by (simp add: buildTrackedUrl_def parse)
  have params: "searchParams A ?u' = trackedParams (searchParams A u) m ov"
    unfolding trackedUrl_def by (rule searchParams_update_query) (rule query_round_trip)
  have frame: "scheme ?u' = scheme u" "username ?u' = username u" "password ?u' = password u"
    "host ?u' = host u" "port ?u' = port u" "path ?u' = path u" "fragment ?u' = fragment u"
    by (simp_all add: trackedUrl_def update_query_def)
  show ?thesis
    using out url_round_trip frame params trackedParams_filter_other [of ov "searchParams A u" m]
    by simp
qed

theorem tracking_changes_query_only_witness:
  "buildTrackedUrl plain_url_api ''https://example.com/post?a=1&ref=old&utm_medium=x&a=2#top'' Social
     (Some [(''ref'', ''new''), (''utm_source'', ''me'')]) =
     Inr ''https://example.com/post?a=1&ref=new&utm_medium=social&a=2&utm_source=me&utm_campaign=content-repurpose#top'' \<and>
   filter (\<lambda>p. fst p \<notin> tracked_keys (Some [(''ref'', ''new''), (''utm_source'', ''me'')]))
     (plain_urlencoded_parse
        ''a=1&ref=new&utm_medium=social&a=2&utm_source=me&utm_campaign=content-repurpose'') =
     [(''a'', ''1''), (''a'', ''2'')]"
proof -
  let ?h = "''https://example.com/post?a=1&ref=old&utm_medium=x&a=2#top''"
  let ?ov = "Some [(''ref'', ''new''), (''utm_source'', ''me'')]"
  let ?u = "\<lparr>scheme = ''https'', username = [], password = [], host = Some ''example.com'',
             port = None, path = ''/post'', query = Some ''a=1&ref=old&utm_medium=x&a=2'',
             fragment = Some ''top''\<rparr>"
  let ?u' = "\<lparr>scheme = ''https'', username = [], password = [], host = Some ''example.com'',
             port = None, path = ''/post'',
             query = Some ''a=1&ref=new&utm_medium=social&a=2&utm_source=me&utm_campaign=content-repurpose'',
             fragment = Some ''top''\<rparr>"
  have parse: "new_URL plain_url_api ?h None = Inr ?u"
    by code_simp
  have tracked: "trackedUrl plain_url_api ?u Social ?ov = ?u'"
    by code_simp
  have rt: "new_URL plain_url_api (URL_toString plain_url_api (trackedUrl plain_url_api ?u Social ?ov)) None =
      Inr (trackedUrl plain_url_api ?u Social ?ov)"
    by code_simp
  have qrt: "urlencoded_parse plain_url_api
        (urlencoded_serialize plain_url_api (trackedParams (searchParams plain_url_api ?u) Social ?ov)) =
      trackedParams (searchParams plain_url_api ?u) Social ?ov"
    by code_simp
  have out: "buildTrackedUrl plain_url_api ?h Social ?ov =
     Inr ''https://example.com/post?a=1&ref=new&utm_medium=social&a=2&utm_source=me&utm_campaign=content-repurpose#top''"
    by code_simp
  have before: "filter (\<lambda>p. fst p \<notin> tracked_keys ?ov) (searchParams plain_url_api ?u) =
      [(''a'', ''1''), (''a'', ''2'')]"
    by (simp add: tracked_keys_def searchParams_def plain_url_api_def plain_urlencoded_parse_def)
  have sp: "searchParams plain_url_api ?u' = plain_urlencoded_parse
        ''a=1&ref=new&utm_medium=social&a=2&utm_source=me&utm_campaign=content-repurpose''"
    by (simp add: searchParams_def plain_url_api_def)
  have ser: "URL_toString plain_url_api ?u' =
      ''https://example.com/post?a=1&ref=new&utm_medium=social&a=2&utm_source=me&utm_campaign=content-repurpose#top''"
    by code_simp
  from tracking_changes_query_only [OF parse rt qrt] out rt before sp show ?thesis
    unfolding tracked ser by auto
qed

section \<open>The canonical URL\<close>

text \<open>
  C1. The candidates are tried in the order link, og:url, twitter:url, and the first one
  that is present (a non-empty string) decides; with none, the result is the fetch URL.
  The chosen candidate is resolved against the fetch URL, and the result is the fetch URL
  when that fails.
\<close>

theorem canonical_priority:
  "let link = map_option elem_href (querySelector doc ''link[rel='canonical']'');
       og = Option.bind (querySelector doc ''meta[property='og:url']'') (\<lambda>e. getAttribute e ''content'');
       tw = Option.bind (querySelector doc ''meta[name='twitter:url']'') (\<lambda>e. getAttribute e ''content'');
       resolve = (\<lambda>h. case new_URL A h (Some url) of Inr u \<Rightarrow> URL_toString A u | Inl e \<Rightarrow> url);
       r = getCanonical A doc url
   in (truthy link \<longrightarrow> href r = resolve (the link) \<and> canonical_source r = FromLink) \<and>
      (\<not> truthy link \<and> truthy og \<longrightarrow> href r = resolve (the og) \<and> canonical_source r = FromOg) \<and>
      (\<not> truthy link \<and> \<not> truthy og \<and> truthy tw \<longrightarrow>
         href r = resolve (the tw) \<and> canonical_source r = FromTwitter) \<and>
      (\<not> truthy link \<and> \<not> truthy og \<and> \<not> truthy tw \<longrightarrow>
         href r = url \<and> canonical_source r = FromInput)"
proof -
  let ?link = "map_option elem_href (querySelector doc ''link[rel='canonical']'')"
  let ?og = "Option.bind (querySelector doc ''meta[property='og:url']'') (\<lambda>e. getAttribute e ''content'')"
  let ?tw = "Option.bind (querySelector doc ''meta[name='twitter:url']'') (\<lambda>e. getAttribute e ''content'')"
  have resolved: "resolveCanonical A url c =
      (case new_URL A (the c) (Some url) of Inr u \<Rightarrow> URL_toString A u | Inl e \<Rightarrow> url)"
    if "truthy c" for c
    using that by (simp add: resolveCanonical_def)
  consider (link) "truthy ?link"
    | (og) "\<not> truthy ?link" "truthy ?og"
    | (tw) "\<not> truthy ?link" "\<not> truthy ?og" "truthy ?tw"
    | (input) "\<not> truthy ?link" "\<not> truthy ?og" "\<not> truthy ?tw"
    by blast
  then show ?thesis
  proof cases
    case link
    then show ?thesis
      by (simp add: getCanonical_def Let_def resolved)
  next
    case og
    then show ?thesis
      by (simp add: getCanonical_def Let_def resolved)
  next
    case tw
    then show ?thesis
      by (simp add: getCanonical_def Let_def resolved)
  next
    case input
    then show ?thesis
      by (simp add: getCanonical_def Let_def)
  qed
qed

theorem canonical_priority_witness:
  "href (getCanonical plain_url_api
           (doc_of (Some (link_el ''https://example.com/canonical''))
                   (Some (meta_el ''property'' ''og:url'' ''https://example.com/og'')) None)
           ''https://example.com/fetched?x=1'') = ''https://example.com/canonical'' \<and>
   href (getCanonical plain_url_api
           (doc_of None (Some (meta_el ''property'' ''og:url'' ''/og'')) 
                   (Some (meta_el ''name'' ''twitter:url'' ''https://example.com/tw'')))
           ''https://example.com/fetched?x=1'') = ''https://example.com/og'' \<and>
   href (getCanonical plain_url_api
           (doc_of (Some (link_el [])) None
                   (Some (meta_el ''name'' ''twitter:url'' ''https://example.com/tw'')))
           ''https://example.com/fetched?x=1'') = ''https://example.com/tw'' \<and>
   href (getCanonical plain_url_api
           (doc_of None (Some (meta_el ''property'' ''og:url'' ''http://'')) None)
           ''https://example.com/fetched?x=1'') = ''https://example.com/fetched?x=1'' \<and>
   href (getCanonical plain_url_api (doc_of None None None) ''https://example.com/fetched?x=1'') =
     ''https://example.com/fetched?x=1''"
proof -
  let ?url = "''https://example.com/fetched?x=1''"
  have r1: "(case new_URL plain_url_api ''https://example.com/canonical'' (Some ?url) of
               Inr u \<Rightarrow> URL_toString plain_url_api u | Inl e \<Rightarrow> ?url) = ''https://example.com/canonical''"
    by code_simp
  have r2: "(case new_URL plain_url_api ''/og'' (Some ?url) of
               Inr u \<Rightarrow> URL_toString plain_url_api u | Inl e \<Rightarrow> ?url) = ''https://example.com/og''"
    by code_simp
  have r3: "(case new_URL plain_url_api ''https://example.com/tw'' (Some ?url) of
               Inr u \<Rightarrow> URL_toString plain_url_api u | Inl e \<Rightarrow> ?url) = ''https://example.com/tw''"
    by code_simp
  have r4: "(case new_URL plain_url_api ''http://'' (Some ?url) of
               Inr u \<Rightarrow> URL_toString plain_url_api u | Inl e \<Rightarrow> ?url) = ?url"
    by code_simp
  show ?thesis
    using
      canonical_priority [where A = plain_url_api and url = ?url and
        doc = "doc_of (Some (link_el ''https://example.com/canonical''))
                   (Some (meta_el ''property'' ''og:url'' ''https://example.com/og'')) None"]
      canonical_priority [where A = plain_url_api and url = ?url and
        doc = "doc_of None (Some (meta_el ''property'' ''og:url'' ''/og''))
                   (Some (meta_el ''name'' ''twitter:url'' ''https://example.com/tw''))"]
      canonical_priority [where A = plain_url_api and url = ?url and
        doc = "doc_of (Some (link_el [])) None
                   (Some (meta_el ''name'' ''twitter:url'' ''https://example.com/tw''))"]
      canonical_priority [where A = plain_url_api and url = ?url and
        doc = "doc_of None (Some (meta_el ''property'' ''og:url'' ''http://'')) None"]
      canonical_priority [where A = plain_url_api and url = ?url and doc = "doc_of None None None"]
    unfolding Let_def
    by (simp add: doc_of_def link_el_def meta_el_def getAttribute_def r1 r2 r3 r4)
qed

section \<open>The prompt\<close>

lemma str_includes_join: "x \<in> set xs \<Longrightarrow> str_includes (join sep xs) x"
proof (induction sep xs rule: join.induct)
  case (1 sep)
  then show ?case by simp
next
  case (2 sep y)
  then have "join sep [y] = [] @ x @ []" by simp
  then show ?case unfolding str_includes_iff by blast
next
  case (3 sep y z zs)
  show ?case
  proof (cases "x = y")
    case True
    then have "join sep (y # z # zs) = [] @ x @ (sep @ join sep (z # zs))" by simp
    then show ?thesis unfolding str_includes_iff by blast
  next
    case False
    with 3 obtain p q where "join sep (z # zs) = p @ x @ q"
      unfolding str_includes_iff by auto
    then have "join sep (y # z # zs) = (y @ sep @ p) @ x @ q" by simp
    then show ?thesis unfolding str_includes_iff by blast
  qed
qed

lemma str_includes_append_left: "str_includes a x \<Longrightarrow> str_includes (a @ b) x"
  unfolding str_includes_iff by (metis append.assoc)

lemma buildPrompt_shared:
  "\<exists>rest. buildPrompt outputType blogText md platformsArg toneArg =
     sharedContext md (case toneArg of None \<Rightarrow> Conversational | Some x \<Rightarrow> x)
       (buildBacklinkInstruction md) @ rest"
  by (cases outputType) (simp_all add: buildPrompt_def Let_def)

lemma toneGuidance_in_sharedContext:
  "str_includes (sharedContext md t anchor) (toneGuidance t)"
proof -
  have "toneGuidance t \<noteq> []"
    by (cases t) simp_all
  moreover have "toneGuidance t \<in> set (sharedContext_parts md t anchor)"
    by (cases t) (simp_all add: sharedContext_parts_def)
  ultimately have "toneGuidance t \<in> set (filter (\<lambda>x. x \<noteq> []) (sharedContext_parts md t anchor))"
    by simp
  then show ?thesis
    unfolding sharedContext_def by (rule str_includes_join)
qed

text \<open>
  C3, as stated, fails: with the tone absent, the prompt carries the guidance sentence of
  the conversational tone, and the fallback instruction occurs nowhere in it.
\<close>

theorem prompt_absent_tone_counterexample:
  "str_includes
     (buildPrompt Newsletter ''Some article body.''
        \<lparr>title = None, author = None, canonicalUrl = ''https://example.com/post'',
         wordCount = None, excerpt = None\<rparr> None None)
     (toneGuidance Conversational) \<and>
   \<not> str_includes
     (buildPrompt Newsletter ''Some article body.''
        \<lparr>title = None, author = None, canonicalUrl = ''https://example.com/post'',
         wordCount = None, excerpt = None\<rparr> None None)
     outputToneFallback"
  by (simp add: buildPrompt_def sharedContext_def sharedContext_parts_def buildBacklinkInstruction_def
      outputToneFallback_def)

text \<open>
  C3, amended. With the tone absent the default \<^verbatim>\<open>"conversational"\<close> of the parameter list
  applies: the prompt is the one for the conversational tone and contains its guidance
  sentence. For no tone is the fallback instruction one of the lines of the shared
  context.
\<close>

theorem prompt_default_tone:
  "buildPrompt outputType blogText md platformsArg None =
     buildPrompt outputType blogText md platformsArg (Some Conversational) \<and>
   str_includes (buildPrompt outputType blogText md platformsArg None) (toneGuidance Conversational) \<and>
   outputToneFallback \<notin> set (sharedContext_parts md t anchor)"
proof (intro conjI)
  show "buildPrompt outputType blogText md platformsArg None =
     buildPrompt outputType blogText md platformsArg (Some Conversational)"
    by (simp add: buildPrompt_def)
  obtain rest where eq: "buildPrompt outputType blogText md platformsArg None =
      sharedContext md Conversational (buildBacklinkInstruction md) @ rest"
    using buildPrompt_shared [of outputType blogText md platformsArg None] by auto
  have "str_includes (sharedContext md Conversational (buildBacklinkInstruction md) @ rest)
      (toneGuidance Conversational)"
    by (rule str_includes_append_left) (rule toneGuidance_in_sharedContext)
  then show "str_includes (buildPrompt outputType blogText md platformsArg None)
      (toneGuidance Conversational)"
    unfolding eq .
  show "outputToneFallback \<notin> set (sharedContext_parts md t anchor)"
    by (cases t) (simp_all add: sharedContext_parts_def outputToneFallback_def)
qed

section \<open>The request schema\<close>

lemma z_array_empty_min:
  "z_array (Some (1, msg)) schema (Some (JArray [])) = Inl [(too_small, Some msg)]"
  by (simp add: z_array_def)

lemma schema_empty_outputTypes:
  assumes "map_of kvs ''outputTypes'' = Some (JArray [])"
  shows "\<exists>issues. REQUEST_SCHEMA A (JObject kvs) = Inl issues \<and>
           (too_small, Some ''Select at least one output format.'') \<in> set issues"
  unfolding REQUEST_SCHEMA_def Let_def json.case assms z_array_empty_min
  by (simp split: sum.split)

text \<open>
  C8. A request whose \<^verbatim>\<open>outputTypes\<close> is the empty array is answered with status 400,
  the error \<^verbatim>\<open>Invalid input.\<close> and a list of details that contains the message
  \<^verbatim>\<open>Select at least one output format.\<close> (the claim's words, up to the capital letter);
  nothing is logged or stored.
\<close>

theorem empty_outputTypes_rejected:
  assumes "map_of kvs ''outputTypes'' = Some (JArray [])"
  shows "\<exists>details.
           POST W st (Inr (JObject kvs)) =
             (\<lparr>status = 400, body = ErrorBody ''Invalid input.'' (Some details)\<rparr>, st) \<and>
           ''Select at least one output format.'' \<in> set details \<and>
           (\<exists>d \<in> set details. toUpperCase d = toUpperCase ''select at least one output format.'')"
proof -
  obtain issues where iss: "REQUEST_SCHEMA (url_lib W) (JObject kvs) = Inl issues"
    and mem: "(too_small, Some ''Select at least one output format.'') \<in> set issues"
    using schema_empty_outputTypes [OF assms] by blast
  have post: "POST W st (Inr (JObject kvs)) =
      (\<lparr>status = 400, body = ErrorBody ''Invalid input.'' (Some (map (issue_message W) issues))\<rparr>, st)"
    by (simp add: POST_def POST_try_def POST_until_persist_def iss)
  have "issue_message W (too_small, Some ''Select at least one output format.'') =
      ''Select at least one output format.''"
    by (simp add: issue_message_def)
  with mem have d: "''Select at least one output format.'' \<in> set (map (issue_message W) issues)"
    by force
  have up: "toUpperCase ''Select at least one output format.'' =
      toUpperCase ''select at least one output format.''"
    by code_simp
  from post d up show ?thesis
    by blast
qed

theorem empty_outputTypes_rejected_witness:
  "POST example_world initial_state (Inr scenario_C) =
     (\<lparr>status = 400, body = ErrorBody ''Invalid input.'' (Some [''Select at least one output format.''])\<rparr>,
      initial_state)"
proof -
  have h: "map_of [(''sourceType'', JString ''text''), (''source'', JString ''Some article body.''),
              (''outputTypes'', JArray []), (''canonicalUrl'', JString ''https://example.com/post'')]
            ''outputTypes'' = Some (JArray [])"
    by simp
  have s: "REQUEST_SCHEMA plain_url_api scenario_C =
      Inl [(too_small, Some ''Select at least one output format.'')]"
    by code_simp
  from empty_outputTypes_rejected [OF h, of example_world initial_state]
  obtain details where "POST example_world initial_state (Inr scenario_C) =
     (\<lparr>status = 400, body = ErrorBody ''Invalid input.'' (Some details)\<rparr>, initial_state)"
    unfolding scenario_C_def by blast
  moreover have "POST example_world initial_state (Inr scenario_C) =
     (\<lparr>status = 400, body = ErrorBody ''Invalid input.''
        (Some (map (issue_message example_world) [(too_small, Some ''Select at least one output format.'')]))\<rparr>,
      initial_state)"
    by (simp add: POST_def POST_try_def POST_until_persist_def example_world_def s)
  ultimately show ?thesis
    by (simp add: issue_message_def)
qed

section \<open>The conversion\<close>

lemma sanitize_nonempty: "sanitizeModelHtml output url \<noteq> []"
  by (simp add: sanitizeModelHtml_def Let_def placeholder_def)

lemma sanitize_includes:
  "cleaned_output output \<noteq> [] \<Longrightarrow> str_includes (sanitizeModelHtml output url) url"
proof (cases "str_includes (cleaned_output output) url")
  case True
  moreover assume "cleaned_output output \<noteq> []"
  ultimately show ?thesis
    by (simp add: sanitizeModelHtml_def Let_def)
next
  case False
  moreover assume "cleaned_output output \<noteq> []"
  ultimately have \<open>sanitizeModelHtml output url =
      (cleaned_output output @ ''\<newline><p><a href="'') @ url @ ''">Read the full article</a></p>''\<close>
    by (simp add: sanitizeModelHtml_def Let_def)
  then show ?thesis
    using str_includes_middle by metis
qed

lemma schema_scenario_A:
  assumes "new_URL A ''https://example.com/post'' None = Inr u"
  shows "REQUEST_SCHEMA A scenario_A =
     Inr \<lparr>sourceType = SourceText, source = ''Some article body.'', outputTypes = [Newsletter],
          socialPlatforms = None, tone = None,
          reqCanonicalUrl = Some ''https://example.com/post'',
          articleTitle = None, articleAuthor = None\<rparr>"
  by (simp add: REQUEST_SCHEMA_def scenario_A_def z_enum_def z_string_min_def z_string_def
      z_array_def z_optional_def z_string_url_def assms)

text \<open>Scenario A gets to the persistence step when the key is configured, the canonical
  URL parses and the model answers.\<close>

lemma until_persist_scenario_A:
  assumes key: "GEMINI_API_KEY W = Some k" "k \<noteq> []"
    and parse: "new_URL (url_lib W) ''https://example.com/post'' None = Inr u"
    and tracked: "tracked = URL_toString (url_lib W) (trackedUrl (url_lib W) u Newsletter None)"
    and gen: "generateContent W k (case GEMINI_MODEL W of Some m \<Rightarrow> m | None \<Rightarrow> ''gemini-2.0-flash'') 0
                (buildPrompt Newsletter ''Some article body.''
                   (scenario_A_metadata\<lparr>canonicalUrl := tracked\<rparr>)
                   (Some DEFAULT_PLATFORMS) (Some DEFAULT_TONE)) = Inr answer"
  shows "POST_until_persist W (Inr scenario_A) =
           Inr (Inr (scenario_A_parsed, DEFAULT_PLATFORMS,
                     \<lparr>outputs = [Newsletter \<mapsto> sanitizeModelHtml answer tracked],
                      metadata = scenario_A_metadata,
                      rawContent = ''Some article body.''\<rparr>))"
proof -
  have tr: "buildTrackedUrl (url_lib W) ''https://example.com/post'' Newsletter None = Inr tracked"
    by (simp add: buildTrackedUrl_def parse tracked)
  have loop: "generate_loop W (k, (case GEMINI_MODEL W of Some m \<Rightarrow> m | None \<Rightarrow> ''gemini-2.0-flash''))
      ''Some article body.'' scenario_A_metadata DEFAULT_PLATFORMS None [Newsletter] 0 Map.empty =
      Inr [Newsletter \<mapsto> sanitizeModelHtml answer tracked]"
    using tr gen by (simp add: generateOutput_def scenario_A_metadata_def Let_def)
  have src: "resolve_source W scenario_A_parsed = Inr (Inr (''Some article body.'', scenario_A_metadata))"
    by (simp add: resolve_source_def scenario_A_parsed_def scenario_A_metadata_def)
  have upd: "scenario_A_metadata\<lparr>title := None, author := None\<rparr> = scenario_A_metadata"
    by (simp add: scenario_A_metadata_def)
  have fields: "articleTitle scenario_A_parsed = None" "articleAuthor scenario_A_parsed = None"
    "socialPlatforms scenario_A_parsed = None" "tone scenario_A_parsed = None"
    "outputTypes scenario_A_parsed = [Newsletter]"
    by (simp_all add: scenario_A_parsed_def)
  have schema: "REQUEST_SCHEMA (url_lib W) scenario_A = Inr scenario_A_parsed"
    unfolding scenario_A_parsed_def by (rule schema_scenario_A [OF parse])
  show ?thesis
    by (simp add: POST_until_persist_def schema src ensureApiKey_def key upd fields loop Let_def
        del: generate_loop.simps)
qed

text \<open>The response to a request that gets to the persistence step.\<close>

lemma POST_after_persist:
  assumes "POST_until_persist W request = Inr (Inr (parsed, platforms, payload))"
    and "persistConversion W st (sourceType parsed)
           (case tone parsed of None \<Rightarrow> DEFAULT_TONE | Some t \<Rightarrow> t)
           (outputTypes parsed) platforms (metadata payload) (outputs payload)
           (rawContent payload) = (r, st1)"
  shows "POST W st request =
           (case r of
              Inr u \<Rightarrow> (\<lparr>status = 200, body = ResultBody payload\<rparr>, st1)
            | Inl e \<Rightarrow>
                (\<lparr>status = 500,
                  body = ErrorBody (case e of Error msg \<Rightarrow> msg
                                    | NonError \<Rightarrow> ''Unexpected error occurred.'') None\<rparr>,
                 console_error ''[convert] Error'' (Thrown e) st1))"
  using assms by (cases r) (simp_all add: POST_def POST_try_def)

lemma POST_scenario_A:
  assumes key: "GEMINI_API_KEY W = Some k" "k \<noteq> []"
    and parse: "new_URL (url_lib W) ''https://example.com/post'' None = Inr u"
    and tracked: "tracked = URL_toString (url_lib W) (trackedUrl (url_lib W) u Newsletter None)"
    and gen: "generateContent W k (case GEMINI_MODEL W of Some m \<Rightarrow> m | None \<Rightarrow> ''gemini-2.0-flash'') 0
                (buildPrompt Newsletter ''Some article body.''
                   (scenario_A_metadata\<lparr>canonicalUrl := tracked\<rparr>)
                   (Some DEFAULT_PLATFORMS) (Some DEFAULT_TONE)) = Inr answer"
    and persist: "persistConversion W st SourceText Conversational [Newsletter] DEFAULT_PLATFORMS
                    scenario_A_metadata [Newsletter \<mapsto> sanitizeModelHtml answer tracked]
                    ''Some article body.'' = (r, st')"
  shows "POST W st (Inr scenario_A) =
           (case r of
              Inr u \<Rightarrow>
                (\<lparr>status = 200,
                  body = ResultBody \<lparr>outputs = [Newsletter \<mapsto> sanitizeModelHtml answer tracked],
                                     metadata = scenario_A_metadata,
                                     rawContent = ''Some article body.''\<rparr>\<rparr>, st')
            | Inl e \<Rightarrow>
                (\<lparr>status = 500,
                  body = ErrorBody (case e of Error msg \<Rightarrow> msg
                                    | NonError \<Rightarrow> ''Unexpected error occurred.'') None\<rparr>,
                 console_error ''[convert] Error'' (Thrown e) st'))"
proof (rule POST_after_persist)
  show "POST_until_persist W (Inr scenario_A) =
           Inr (Inr (scenario_A_parsed, DEFAULT_PLATFORMS,
                     \<lparr>outputs = [Newsletter \<mapsto> sanitizeModelHtml answer tracked],
                      metadata = scenario_A_metadata,
                      rawContent = ''Some article body.''\<rparr>))"
    using key parse tracked gen by (rule until_persist_scenario_A)
  show "persistConversion W st (sourceType scenario_A_parsed)
      (case tone scenario_A_parsed of None \<Rightarrow> DEFAULT_TONE | Some t \<Rightarrow> t)
      (outputTypes scenario_A_parsed) DEFAULT_PLATFORMS
      (metadata \<lparr>outputs = [Newsletter \<mapsto> sanitizeModelHtml answer tracked],
                 metadata = scenario_A_metadata, rawContent = ''Some article body.''\<rparr>)
      (outputs \<lparr>outputs = [Newsletter \<mapsto> sanitizeModelHtml answer tracked],
                metadata = scenario_A_metadata, rawContent = ''Some article body.''\<rparr>)
      (rawContent \<lparr>outputs = [Newsletter \<mapsto> sanitizeModelHtml answer tracked],
                   metadata = scenario_A_metadata, rawContent = ''Some article body.''\<rparr>) = (r, st')"
    using persist by (simp add: scenario_A_parsed_def DEFAULT_TONE_def)
qed

lemma persist_not_configured:
  assumes "SUPABASE_URL W = None"
  shows "persistConversion W st a b c d e f g = (Inr (), st)"
  by (simp add: persistConversion_def getSupabaseAdminClient_def createSupabaseAdminClient_def assms)

lemma plain_tracked_example:
  "URL_toString plain_url_api
     (trackedUrl plain_url_api
        \<lparr>scheme = ''https'', username = [], password = [], host = Some ''example.com'',
         port = None, path = ''/post'', query = None, fragment = None\<rparr> Newsletter None) =
   ''https://example.com/post?utm_source=blog2buzz&utm_medium=newsletter&utm_campaign=content-repurpose''"
  by code_simp

lemma plain_parse_example:
  "new_URL plain_url_api ''https://example.com/post'' None =
     Inr \<lparr>scheme = ''https'', username = [], password = [], host = Some ''example.com'',
          port = None, path = ''/post'', query = None, fragment = None\<rparr>"
  by code_simp

text \<open>Scenario A in a world that differs from \<open>example_world\<close> in the model's answer and in
  the Supabase configuration only.\<close>

lemma POST_scenario_A_example:
  assumes lib: "url_lib W = plain_url_api"
    and key: "GEMINI_API_KEY W = Some ''key''"
    and model: "GEMINI_MODEL W = None"
    and gen: "\<And>p. generateContent W ''key'' ''gemini-2.0-flash'' 0 p = Inr answer"
    and persist: "\<And>md outs. persistConversion W st SourceText Conversational [Newsletter]
                    DEFAULT_PLATFORMS md outs ''Some article body.'' = (r, st')"
  shows "POST W st (Inr scenario_A) =
           (case r of
              Inr u \<Rightarrow>
                (\<lparr>status = 200,
                  body = ResultBody
                    \<lparr>outputs = [Newsletter \<mapsto> sanitizeModelHtml answer
                        ''https://example.com/post?utm_source=blog2buzz&utm_medium=newsletter&utm_campaign=content-repurpose''],
                     metadata = scenario_A_metadata,
                     rawContent = ''Some article body.''\<rparr>\<rparr>, st')
            | Inl e \<Rightarrow>
                (\<lparr>status = 500,
                  body = ErrorBody (case e of Error msg \<Rightarrow> msg
                                    | NonError \<Rightarrow> ''Unexpected error occurred.'') None\<rparr>,
                 console_error ''[convert] Error'' (Thrown e) st'))"
proof (rule POST_scenario_A)
  show "GEMINI_API_KEY W = Some ''key''" "''key'' \<noteq> []"
    using key by simp_all
  show "new_URL (url_lib W) ''https://example.com/post'' None =
      Inr \<lparr>scheme = ''https'', username = [], password = [], host = Some ''example.com'',
           port = None, path = ''/post'', query = None, fragment = None\<rparr>"
    unfolding lib by (rule plain_parse_example)
  show "''https://example.com/post?utm_source=blog2buzz&utm_medium=newsletter&utm_campaign=content-repurpose'' =
      URL_toString (url_lib W) (trackedUrl (url_lib W)
        \<lparr>scheme = ''https'', username = [], password = [], host = Some ''example.com'',
         port = None, path = ''/post'', query = None, fragment = None\<rparr> Newsletter None)"
    unfolding lib by (rule plain_tracked_example [symmetric])
  show "generateContent W ''key'' (case GEMINI_MODEL W of Some m \<Rightarrow> m | None \<Rightarrow> ''gemini-2.0-flash'') 0 p =
      Inr answer" for p
    by (simp add: model gen)
  show "persistConversion W st SourceText Conversational [Newsletter] DEFAULT_PLATFORMS md outs
      ''Some article body.'' = (r, st')" for md outs
    by (rule persist)
qed

lemma sanitize_empty_answer:
  "sanitizeModelHtml [] t = ''<p>We weren't able to generate this output. Please try again.</p>''"
  by (simp add: sanitizeModelHtml_def cleaned_output_def trim_def placeholder_def)

lemma sanitize_hi_example:
  \<open>sanitizeModelHtml ''<p>hi</p>''
     ''https://example.com/post?utm_source=blog2buzz&utm_medium=newsletter&utm_campaign=content-repurpose'' =
   ''<p>hi</p>\<newline><p><a href="https://example.com/post?utm_source=blog2buzz&utm_medium=newsletter&utm_campaign=content-repurpose">Read the full article</a></p>''\<close>
  by code_simp

text \<open>
  C6, as stated, fails: when the model answers scenario A with the empty text, the
  response is a success whose newsletter is the placeholder, and the placeholder does not
  contain the canonical URL, with or without tracking parameters.
\<close>

theorem scenario_A_counterexample:
  "status (fst (POST world_empty_answer initial_state (Inr scenario_A))) = 200 \<and>
   output_of (fst (POST world_empty_answer initial_state (Inr scenario_A))) Newsletter =
     Some ''<p>We weren't able to generate this output. Please try again.</p>'' \<and>
   \<not> str_includes ''<p>We weren't able to generate this output. Please try again.</p>''
         ''https://example.com/post''"
proof -
  have "POST world_empty_answer initial_state (Inr scenario_A) =
      (case Inr () of
         Inr u \<Rightarrow>
           (\<lparr>status = 200,
             body = ResultBody
               \<lparr>outputs = [Newsletter \<mapsto> sanitizeModelHtml []
                   ''https://example.com/post?utm_source=blog2buzz&utm_medium=newsletter&utm_campaign=content-repurpose''],
                metadata = scenario_A_metadata,
                rawContent = ''Some article body.''\<rparr>\<rparr>, initial_state)
       | Inl e \<Rightarrow>
           (\<lparr>status = 500,
             body = ErrorBody (case e of Error msg \<Rightarrow> msg
                               | NonError \<Rightarrow> ''Unexpected error occurred.'') None\<rparr>,
            console_error ''[convert] Error'' (Thrown e) initial_state))"
    by (rule POST_scenario_A_example)
      (simp_all add: world_empty_answer_def example_world_def persist_not_configured)
  then show ?thesis
    by (simp add: output_of_def sanitize_empty_answer)
qed

text \<open>
  C6, amended. When the Gemini key is configured, the canonical URL of scenario A parses,
  the model answers with a text whose cleaned form is not empty, and the persistence step
  does not throw, the response is a success with exactly the key \<^verbatim>\<open>newsletter\<close>; its HTML is
  not empty and contains the tracked URL that \<^verbatim>\<open>buildTrackedUrl\<close> gives for the channel, and
  the metadata carries the canonical URL as it was sent.
\<close>

theorem scenario_A_tracked_in_output_only:
  assumes key: "GEMINI_API_KEY W = Some k" "k \<noteq> []"
    and parse: "new_URL (url_lib W) ''https://example.com/post'' None = Inr u"
    and tracked: "tracked = URL_toString (url_lib W) (trackedUrl (url_lib W) u Newsletter None)"
    and gen: "generateContent W k (case GEMINI_MODEL W of Some m \<Rightarrow> m | None \<Rightarrow> ''gemini-2.0-flash'') 0
                (buildPrompt Newsletter ''Some article body.''
                   (scenario_A_metadata\<lparr>canonicalUrl := tracked\<rparr>)
                   (Some DEFAULT_PLATFORMS) (Some DEFAULT_TONE)) = Inr answer"
    and nonempty: "cleaned_output answer \<noteq> []"
    and persist: "\<And>a b c d e f g. fst (persistConversion W st a b c d e f g) = Inr ()"
  shows "\<exists>page st'.
           POST W st (Inr scenario_A) =
             (\<lparr>status = 200,
               body = ResultBody \<lparr>outputs = [Newsletter \<mapsto> page],
                                  metadata = scenario_A_metadata,
                                  rawContent = ''Some article body.''\<rparr>\<rparr>, st') \<and>
           page \<noteq> [] \<and>
           buildTrackedUrl (url_lib W) ''https://example.com/post'' Newsletter None = Inr tracked \<and>
           str_includes page tracked \<and>
           canonicalUrl scenario_A_metadata = ''https://example.com/post''"
proof -
  let ?page = "sanitizeModelHtml answer tracked"
  obtain st' where p: "persistConversion W st SourceText Conversational [Newsletter] DEFAULT_PLATFORMS
      scenario_A_metadata [Newsletter \<mapsto> ?page] ''Some article body.'' = (Inr (), st')"
    using persist by (metis prod.collapse)
  have "POST W st (Inr scenario_A) =
      (\<lparr>status = 200,
        body = ResultBody \<lparr>outputs = [Newsletter \<mapsto> ?page], metadata = scenario_A_metadata,
                           rawContent = ''Some article body.''\<rparr>\<rparr>, st')"
    using POST_scenario_A [OF key parse tracked gen p] by simp
  moreover have "?page \<noteq> []"
    by (rule sanitize_nonempty)
  moreover have "str_includes ?page tracked"
    using nonempty by (rule sanitize_includes)
  moreover have "buildTrackedUrl (url_lib W) ''https://example.com/post'' Newsletter None = Inr tracked"
    by (simp add: buildTrackedUrl_def parse tracked)
  moreover have "canonicalUrl scenario_A_metadata = ''https://example.com/post''"
    by (simp add: scenario_A_metadata_def)
  ultimately show ?thesis
    by blast
qed

theorem scenario_A_tracked_in_output_only_witness:
  \<open>status (fst (POST example_world initial_state (Inr scenario_A))) = 200 \<and>
   output_of (fst (POST example_world initial_state (Inr scenario_A))) Newsletter =
     Some ''<p>hi</p>\<newline><p><a href="https://example.com/post?utm_source=blog2buzz&utm_medium=newsletter&utm_campaign=content-repurpose">Read the full article</a></p>'' \<and>
   output_of (fst (POST example_world initial_state (Inr scenario_A))) Social = None \<and>
   output_of (fst (POST example_world initial_state (Inr scenario_A))) Email = None \<and>
   buildTrackedUrl plain_url_api ''https://example.com/post'' Newsletter None =
     Inr ''https://example.com/post?utm_source=blog2buzz&utm_medium=newsletter&utm_campaign=content-repurpose''\<close>
proof -
  let ?t = "''https://example.com/post?utm_source=blog2buzz&utm_medium=newsletter&utm_campaign=content-repurpose''"
  have lib: "url_lib example_world = plain_url_api"
    by (simp add: example_world_def)
  have k: "GEMINI_API_KEY example_world = Some ''key''" "''key'' \<noteq> []"
    by (simp_all add: example_world_def)
  have parse: "new_URL (url_lib example_world) ''https://example.com/post'' None =
        Inr \<lparr>scheme = ''https'', username = [], password = [], host = Some ''example.com'',
          port = None, path = ''/post'', query = None, fragment = None\<rparr>"
    unfolding lib by (rule plain_parse_example)
  have tr: "?t = URL_toString (url_lib example_world) (trackedUrl (url_lib example_world)
          \<lparr>scheme = ''https'', username = [], password = [], host = Some ''example.com'',
           port = None, path = ''/post'', query = None, fragment = None\<rparr> Newsletter None)"
    unfolding lib by (rule plain_tracked_example [symmetric])
  have gen: "generateContent example_world ''key''
      (case GEMINI_MODEL example_world of Some m \<Rightarrow> m | None \<Rightarrow> ''gemini-2.0-flash'') 0 p = Inr ''<p>hi</p>''" for p
    by (simp add: example_world_def)
  have ne: "cleaned_output ''<p>hi</p>'' \<noteq> []"
    by code_simp
  have per: "fst (persistConversion example_world initial_state a b c d e f g) = Inr ()" for a b c d e f g
    by (simp add: persist_not_configured example_world_def)
  from scenario_A_tracked_in_output_only [OF k parse tr gen ne per]
  obtain pg st' where post: "POST example_world initial_state (Inr scenario_A) =
      (\<lparr>status = 200,
        body = ResultBody \<lparr>outputs = [Newsletter \<mapsto> pg], metadata = scenario_A_metadata,
                           rawContent = ''Some article body.''\<rparr>\<rparr>, st')"
    and track: "buildTrackedUrl (url_lib example_world) ''https://example.com/post'' Newsletter None = Inr ?t"
    by blast
  have direct: "POST example_world initial_state (Inr scenario_A) =
      (case Inr () of
         Inr u \<Rightarrow>
           (\<lparr>status = 200,
             body = ResultBody
               \<lparr>outputs = [Newsletter \<mapsto> sanitizeModelHtml ''<p>hi</p>'' ?t],
                metadata = scenario_A_metadata,
                rawContent = ''Some article body.''\<rparr>\<rparr>, initial_state)
       | Inl e \<Rightarrow>
           (\<lparr>status = 500,
             body = ErrorBody (case e of Error msg \<Rightarrow> msg
                               | NonError \<Rightarrow> ''Unexpected error occurred.'') None\<rparr>,
            console_error ''[convert] Error'' (Thrown e) initial_state))"
    by (rule POST_scenario_A_example) (simp_all add: example_world_def persist_not_configured)
  from post direct have "pg = sanitizeModelHtml ''<p>hi</p>'' ?t"
    by (simp add: fun_eq_iff split: if_splits)
  with post track show ?thesis
    by (simp add: output_of_def sanitize_hi_example lib)
qed

lemma persist_reported:
  assumes "getSupabaseAdminClient W st = (Inr (Some supabase), st1)"
    and "supabase \<lparr>source_type = a, row_tone = b, output_types = c, social_platforms = d,
                    canonical_url = canonicalUrl e, article_title = title e,
                    article_author = author e, row_outputs = f, raw_content = g,
                    row_metadata = e\<rparr> = Inr (Some err)"
  shows "persistConversion W st a b c d e f g =
           (Inr (), console_error ''[convert] Failed to persist conversion'' (PostgrestError err) st1)"
  using assms by (simp add: persistConversion_def)

lemma persist_client_throws:
  assumes "getSupabaseAdminClient W st = (Inl x, st1)"
  shows "persistConversion W st a b c d e f g = (Inl x, st1)"
  using assms by (simp add: persistConversion_def)

text \<open>
  C5. The claim does not hold of the code when the persistence step throws. With
  \<^verbatim>\<open>SUPABASE_URL\<close> set to a project URL without a scheme and the service-role key set, the
  request of scenario A gets to the persistence step with its outputs generated;
  \<^verbatim>\<open>createClient\<close> throws there, \<^verbatim>\<open>persistConversion\<close> has no \<^verbatim>\<open>catch\<close> of its own, and the
  response is the error 500 with the message of what was thrown, which is also what is
  logged.
\<close>

theorem persistence_throw_fails_conversion:
  "reaches_persist world_bad_supabase_url (Inr scenario_A) \<and>
   POST world_bad_supabase_url initial_state (Inr scenario_A) =
     (\<lparr>status = 500, body = ErrorBody ''Invalid URL'' None\<rparr>,
      \<lparr>console = [(''[convert] Error'', Thrown (Error ''Invalid URL''))],
       supabaseAdminClient = None\<rparr>)"
proof -
  let ?t = "''https://example.com/post?utm_source=blog2buzz&utm_medium=newsletter&utm_campaign=content-repurpose''"
  have "POST_until_persist world_bad_supabase_url (Inr scenario_A) =
      Inr (Inr (scenario_A_parsed, DEFAULT_PLATFORMS,
                \<lparr>outputs = [Newsletter \<mapsto> sanitizeModelHtml ''<p>hi</p>'' ?t],
                 metadata = scenario_A_metadata, rawContent = ''Some article body.''\<rparr>))"
  proof (rule until_persist_scenario_A)
    show "GEMINI_API_KEY world_bad_supabase_url = Some ''key''" "''key'' \<noteq> []"
      by (simp_all add: world_bad_supabase_url_def example_world_def)
    show "new_URL (url_lib world_bad_supabase_url) ''https://example.com/post'' None =
        Inr \<lparr>scheme = ''https'', username = [], password = [], host = Some ''example.com'',
             port = None, path = ''/post'', query = None, fragment = None\<rparr>"
      using plain_parse_example by (simp add: world_bad_supabase_url_def example_world_def)
    show "?t = URL_toString (url_lib world_bad_supabase_url) (trackedUrl (url_lib world_bad_supabase_url)
          \<lparr>scheme = ''https'', username = [], password = [], host = Some ''example.com'',
           port = None, path = ''/post'', query = None, fragment = None\<rparr> Newsletter None)"
      using plain_tracked_example by (simp add: world_bad_supabase_url_def example_world_def)
  qed (simp_all add: world_bad_supabase_url_def example_world_def)
  then have r: "reaches_persist world_bad_supabase_url (Inr scenario_A)"
    by (simp add: reaches_persist_def)
  have bad: "plain_new_URL ''your-project.supabase.co'' None = Inl (Error ''Invalid URL'')"
    by code_simp
  have c: "getSupabaseAdminClient world_bad_supabase_url initial_state =
      (Inl (Error ''Invalid URL''), initial_state)"
    by (simp add: getSupabaseAdminClient_def createSupabaseAdminClient_def world_bad_supabase_url_def
        example_world_def initial_state_def bad)
  have per: "persistConversion world_bad_supabase_url initial_state SourceText Conversational
      [Newsletter] DEFAULT_PLATFORMS md outs ''Some article body.'' =
      (Inl (Error ''Invalid URL''), initial_state)" for md outs
    using c by (rule persist_client_throws)
  have p: "POST world_bad_supabase_url initial_state (Inr scenario_A) =
     (\<lparr>status = 500, body = ErrorBody ''Invalid URL'' None\<rparr>,
      \<lparr>console = [(''[convert] Error'', Thrown (Error ''Invalid URL''))],
       supabaseAdminClient = None\<rparr>)"
    using POST_scenario_A_example [where W = world_bad_supabase_url and answer = "''<p>hi</p>''"
        and st = initial_state, OF _ _ _ _ per]
    by (simp add: world_bad_supabase_url_def example_world_def console_error_def initial_state_def)
  from r p show ?thesis
    by (rule conjI)
qed

text \<open>
  The other path of the persistence step, and the errors before it. When the insert reports
  an error (the \<^verbatim>\<open>error\<close> of its result), it is logged and the response is the success 200
  with the payload. What the extraction, the configuration check or the generation throws
  becomes the response 500 with its message, and is logged.
\<close>

theorem persistence_reported_error_swallowed:
  "(POST_until_persist W request = Inr (Inr (parsed, platforms, payload)) \<and>
    getSupabaseAdminClient W st = (Inr (Some supabase), st1) \<and>
    supabase \<lparr>source_type = sourceType parsed,
               row_tone = (case tone parsed of None \<Rightarrow> DEFAULT_TONE | Some t \<Rightarrow> t),
               output_types = outputTypes parsed, social_platforms = platforms,
               canonical_url = canonicalUrl (metadata payload),
               article_title = title (metadata payload),
               article_author = author (metadata payload),
               row_outputs = outputs payload, raw_content = rawContent payload,
               row_metadata = metadata payload\<rparr> = Inr (Some err) \<longrightarrow>
      POST W st request =
        (\<lparr>status = 200, body = ResultBody payload\<rparr>,
         console_error ''[convert] Failed to persist conversion'' (PostgrestError err) st1)) \<and>
   (POST_until_persist W request = Inl e \<longrightarrow>
      POST W st request =
        (\<lparr>status = 500,
          body = ErrorBody (case e of Error msg \<Rightarrow> msg | NonError \<Rightarrow> ''Unexpected error occurred.'')
                   None\<rparr>,
         console_error ''[convert] Error'' (Thrown e) st)) \<and>
   (sourceType parsed = SourceUrl \<and> extractArticleFromUrl W (source parsed) = Inl e \<longrightarrow>
      resolve_source W parsed = Inl e) \<and>
   (REQUEST_SCHEMA (url_lib W) input = Inr parsed \<and> resolve_source W parsed = Inl e \<longrightarrow>
      POST_until_persist W (Inr input) = Inl e) \<and>
   (REQUEST_SCHEMA (url_lib W) input = Inr parsed \<and>
    resolve_source W parsed = Inr (Inr (cont, md0)) \<and> ensureApiKey W = Inl e \<longrightarrow>
      POST_until_persist W (Inr input) = Inl e) \<and>
   (REQUEST_SCHEMA (url_lib W) input = Inr parsed \<and>
    resolve_source W parsed = Inr (Inr (cont, md0)) \<and> ensureApiKey W = Inr apiKey \<and>
    generate_loop W
      (apiKey, (case GEMINI_MODEL W of Some m \<Rightarrow> m | None \<Rightarrow> ''gemini-2.0-flash''))
      cont
      (md0\<lparr>title := (case articleTitle parsed of Some t \<Rightarrow> Some t | None \<Rightarrow> title md0),
           author := (case articleAuthor parsed of Some a \<Rightarrow> Some a | None \<Rightarrow> author md0)\<rparr>)
      (case socialPlatforms parsed of
         None \<Rightarrow> DEFAULT_PLATFORMS
       | Some ps \<Rightarrow> if length ps = 0 then DEFAULT_PLATFORMS else uniq ps)
      (tone parsed) (outputTypes parsed) 0 Map.empty = Inl e \<longrightarrow>
      POST_until_persist W (Inr input) = Inl e)"
proof (intro conjI impI)
  assume h: "POST_until_persist W request = Inr (Inr (parsed, platforms, payload)) \<and>
    getSupabaseAdminClient W st = (Inr (Some supabase), st1) \<and>
    supabase \<lparr>source_type = sourceType parsed,
               row_tone = (case tone parsed of None \<Rightarrow> DEFAULT_TONE | Some t \<Rightarrow> t),
               output_types = outputTypes parsed, social_platforms = platforms,
               canonical_url = canonicalUrl (metadata payload),
               article_title = title (metadata payload),
               article_author = author (metadata payload),
               row_outputs = outputs payload, raw_content = rawContent payload,
               row_metadata = metadata payload\<rparr> = Inr (Some err)"
  then have "persistConversion W st (sourceType parsed)
      (case tone parsed of None \<Rightarrow> DEFAULT_TONE | Some t \<Rightarrow> t) (outputTypes parsed) platforms
      (metadata payload) (outputs payload) (rawContent payload) =
      (Inr (), console_error ''[convert] Failed to persist conversion'' (PostgrestError err) st1)"
    by (simp add: persistConversion_def)
  with h show "POST W st request =
      (\<lparr>status = 200, body = ResultBody payload\<rparr>,
       console_error ''[convert] Failed to persist conversion'' (PostgrestError err) st1)"
    using POST_after_persist [of W request parsed platforms payload st "Inr ()"] by simp
next
  assume "POST_until_persist W request = Inl e"
  then show "POST W st request =
      (\<lparr>status = 500,
        body = ErrorBody (case e of Error msg \<Rightarrow> msg | NonError \<Rightarrow> ''Unexpected error occurred.'')
                 None\<rparr>,
       console_error ''[convert] Error'' (Thrown e) st)"
    by (simp add: POST_def POST_try_def)
next
  assume "sourceType parsed = SourceUrl \<and> extractArticleFromUrl W (source parsed) = Inl e"
  then show "resolve_source W parsed = Inl e"
    by (simp add: resolve_source_def)
next
  assume "REQUEST_SCHEMA (url_lib W) input = Inr parsed \<and> resolve_source W parsed = Inl e"
  then show "POST_until_persist W (Inr input) = Inl e"
    by (simp add: POST_until_persist_def)
next
  assume "REQUEST_SCHEMA (url_lib W) input = Inr parsed \<and>
    resolve_source W parsed = Inr (Inr (cont, md0)) \<and> ensureApiKey W = Inl e"
  then show "POST_until_persist W (Inr input) = Inl e"
    by (simp add: POST_until_persist_def)
next
  assume "REQUEST_SCHEMA (url_lib W) input = Inr parsed \<and>
    resolve_source W parsed = Inr (Inr (cont, md0)) \<and> ensureApiKey W = Inr apiKey \<and>
    generate_loop W
      (apiKey, (case GEMINI_MODEL W of Some m \<Rightarrow> m | None \<Rightarrow> ''gemini-2.0-flash''))
      cont
      (md0\<lparr>title := (case articleTitle parsed of Some t \<Rightarrow> Some t | None \<Rightarrow> title md0),
           author := (case articleAuthor parsed of Some a \<Rightarrow> Some a | None \<Rightarrow> author md0)\<rparr>)
      (case socialPlatforms parsed of
         None \<Rightarrow> DEFAULT_PLATFORMS
       | Some ps \<Rightarrow> if length ps = 0 then DEFAULT_PLATFORMS else uniq ps)
      (tone parsed) (outputTypes parsed) 0 Map.empty = Inl e"
  then show "POST_until_persist W (Inr input) = Inl e"
    by (simp add: POST_until_persist_def Let_def del: generate_loop.simps)
qed


theorem persistence_reported_error_swallowed_witness:
  \<open>status (fst (POST world_insert_reports initial_state (Inr scenario_A))) = 200 \<and>
   output_of (fst (POST world_insert_reports initial_state (Inr scenario_A))) Newsletter =
     Some ''<p>hi</p>\<newline><p><a href="https://example.com/post?utm_source=blog2buzz&utm_medium=newsletter&utm_campaign=content-repurpose">Read the full article</a></p>'' \<and>
   console (snd (POST world_insert_reports initial_state (Inr scenario_A))) =
     [(''[convert] Failed to persist conversion'', PostgrestError ''permission denied'')] \<and>
   POST world_no_key initial_state (Inr scenario_A) =
     (\<lparr>status = 500,
       body = ErrorBody ''Gemini API key is missing. Add GEMINI_API_KEY to your environment.'' None\<rparr>,
      \<lparr>console = [(''[convert] Error'',
                    Thrown (Error ''Gemini API key is missing. Add GEMINI_API_KEY to your environment.''))],
       supabaseAdminClient = None\<rparr>) \<and>
   fst (POST example_world initial_state (Inr url_request)) =
     \<lparr>status = 500, body = ErrorBody ''fetch failed'' None\<rparr> \<and>
   fst (POST world_model_fails initial_state (Inr scenario_A)) =
     \<lparr>status = 500, body = ErrorBody ''The model is overloaded.'' None\<rparr>\<close>
proof -
  let ?t = "''https://example.com/post?utm_source=blog2buzz&utm_medium=newsletter&utm_campaign=content-repurpose''"
  let ?payload = "\<lparr>outputs = [Newsletter \<mapsto> sanitizeModelHtml ''<p>hi</p>'' ?t],
                   metadata = scenario_A_metadata, rawContent = ''Some article body.''\<rparr>"
  let ?client = "\<lambda>row :: conversion_row. Inr (Some ''permission denied'') :: thrown + string option"
  note T = persistence_reported_error_swallowed
  \<comment> \<open>the insert reports an error\<close>
  have reach: "POST_until_persist world_insert_reports (Inr scenario_A) =
      Inr (Inr (scenario_A_parsed, DEFAULT_PLATFORMS, ?payload))"
  proof (rule until_persist_scenario_A)
    show "GEMINI_API_KEY world_insert_reports = Some ''key''" "''key'' \<noteq> []"
      by (simp_all add: world_insert_reports_def example_world_def)
    show "new_URL (url_lib world_insert_reports) ''https://example.com/post'' None =
        Inr \<lparr>scheme = ''https'', username = [], password = [], host = Some ''example.com'',
             port = None, path = ''/post'', query = None, fragment = None\<rparr>"
      using plain_parse_example by (simp add: world_insert_reports_def example_world_def)
    show "?t = URL_toString (url_lib world_insert_reports) (trackedUrl (url_lib world_insert_reports)
          \<lparr>scheme = ''https'', username = [], password = [], host = Some ''example.com'',
           port = None, path = ''/post'', query = None, fragment = None\<rparr> Newsletter None)"
      using plain_tracked_example by (simp add: world_insert_reports_def example_world_def)
  qed (simp_all add: world_insert_reports_def example_world_def)
  have client: "getSupabaseAdminClient world_insert_reports initial_state =
      (Inr (Some ?client), initial_state\<lparr>supabaseAdminClient := Some ?client\<rparr>)"
    by (simp add: getSupabaseAdminClient_def createSupabaseAdminClient_def world_insert_reports_def
        example_world_def initial_state_def)
  have reported: "POST world_insert_reports initial_state (Inr scenario_A) =
      (\<lparr>status = 200, body = ResultBody ?payload\<rparr>,
       console_error ''[convert] Failed to persist conversion'' (PostgrestError ''permission denied'')
         (initial_state\<lparr>supabaseAdminClient := Some ?client\<rparr>))"
    using T [where W = world_insert_reports and request = "Inr scenario_A" and st = initial_state
        and parsed = scenario_A_parsed and platforms = DEFAULT_PLATFORMS and payload = ?payload
        and supabase = ?client and err = "''permission denied''"
        and ?st1.0 = "initial_state\<lparr>supabaseAdminClient := Some ?client\<rparr>", THEN conjunct1]
      reach client
    by simp
  \<comment> \<open>the key is missing\<close>
  have schema: "REQUEST_SCHEMA plain_url_api scenario_A = Inr scenario_A_parsed"
    unfolding scenario_A_parsed_def by (rule schema_scenario_A) (rule plain_parse_example)
  have src: "resolve_source W scenario_A_parsed = Inr (Inr (''Some article body.'', scenario_A_metadata))" for W
    by (simp add: resolve_source_def scenario_A_parsed_def scenario_A_metadata_def)
  have nokey: "ensureApiKey world_no_key =
      Inl (Error ''Gemini API key is missing. Add GEMINI_API_KEY to your environment.'')"
    by (simp add: ensureApiKey_def world_no_key_def)
  have "POST_until_persist world_no_key (Inr scenario_A) =
      Inl (Error ''Gemini API key is missing. Add GEMINI_API_KEY to your environment.'')"
    using T [where W = world_no_key and input = scenario_A and parsed = scenario_A_parsed
        and cont = "''Some article body.''" and ?md0.0 = scenario_A_metadata
        and e = "Error ''Gemini API key is missing. Add GEMINI_API_KEY to your environment.''",
        THEN conjunct2, THEN conjunct2, THEN conjunct2, THEN conjunct2, THEN conjunct1]
      schema src nokey
    by (simp add: world_no_key_def example_world_def)
  then have config: "POST world_no_key initial_state (Inr scenario_A) =
     (\<lparr>status = 500,
       body = ErrorBody ''Gemini API key is missing. Add GEMINI_API_KEY to your environment.'' None\<rparr>,
      console_error ''[convert] Error''
        (Thrown (Error ''Gemini API key is missing. Add GEMINI_API_KEY to your environment.''))
        initial_state)"
    using T [where W = world_no_key and request = "Inr scenario_A" and st = initial_state
        and e = "Error ''Gemini API key is missing. Add GEMINI_API_KEY to your environment.''",
        THEN conjunct2, THEN conjunct1]
    by simp
  \<comment> \<open>the page cannot be fetched\<close>
  have schema_url: "REQUEST_SCHEMA plain_url_api url_request = Inr url_request_parsed"
    by (simp add: REQUEST_SCHEMA_def url_request_def url_request_parsed_def z_enum_def
        z_string_min_def z_string_def z_array_def z_optional_def)
  have "extractArticleFromUrl example_world ''https://example.com/post'' = Inl (Error ''fetch failed'')"
    by (simp add: extractArticleFromUrl_def example_world_def)
  then have "resolve_source example_world url_request_parsed = Inl (Error ''fetch failed'')"
    using T [where W = example_world and parsed = url_request_parsed and e = "Error ''fetch failed''",
        THEN conjunct2, THEN conjunct2, THEN conjunct1]
    by (simp add: url_request_parsed_def)
  then have "POST_until_persist example_world (Inr url_request) = Inl (Error ''fetch failed'')"
    using T [where W = example_world and input = url_request and parsed = url_request_parsed
        and e = "Error ''fetch failed''",
        THEN conjunct2, THEN conjunct2, THEN conjunct2, THEN conjunct1]
      schema_url
    by (simp add: example_world_def)
  then have extraction: "fst (POST example_world initial_state (Inr url_request)) =
      \<lparr>status = 500, body = ErrorBody ''fetch failed'' None\<rparr>"
    using T [where W = example_world and request = "Inr url_request" and st = initial_state
        and e = "Error ''fetch failed''", THEN conjunct2, THEN conjunct1]
    by simp
  \<comment> \<open>the model throws\<close>
  have key: "ensureApiKey world_model_fails = Inr ''key''"
    by (simp add: ensureApiKey_def world_model_fails_def example_world_def)
  have loop: "generate_loop world_model_fails (''key'', ''gemini-2.0-flash'') ''Some article body.''
      scenario_A_metadata DEFAULT_PLATFORMS None [Newsletter] 0 Map.empty =
      Inl (Error ''The model is overloaded.'')"
    using plain_parse_example
    by (simp add: buildTrackedUrl_def generateOutput_def world_model_fails_def example_world_def
        scenario_A_metadata_def Let_def)
  have upd: "scenario_A_metadata\<lparr>title := None, author := None\<rparr> = scenario_A_metadata"
    by (simp add: scenario_A_metadata_def)
  have "POST_until_persist world_model_fails (Inr scenario_A) = Inl (Error ''The model is overloaded.'')"
    using T [where W = world_model_fails and input = scenario_A and parsed = scenario_A_parsed
        and cont = "''Some article body.''" and ?md0.0 = scenario_A_metadata and apiKey = "''key''"
        and e = "Error ''The model is overloaded.''",
        THEN conjunct2, THEN conjunct2, THEN conjunct2, THEN conjunct2, THEN conjunct2]
      schema src key loop
    by (simp add: world_model_fails_def example_world_def scenario_A_parsed_def upd)
  then have generation: "fst (POST world_model_fails initial_state (Inr scenario_A)) =
      \<lparr>status = 500, body = ErrorBody ''The model is overloaded.'' None\<rparr>"
    using T [where W = world_model_fails and request = "Inr scenario_A" and st = initial_state
        and e = "Error ''The model is overloaded.''", THEN conjunct2, THEN conjunct1]
    by simp
  from reported config extraction generation show ?thesis
    by (simp add: output_of_def sanitize_hi_example console_error_def initial_state_def)
qed

end
